theory Spec2Isabelle
  imports Main "HOL-Library.Word"
begin

section \<open>Shared data model\<close>

text \<open>
  Identifiers are 64-bit snowflakes. Go's \<open>error\<close> interface is a datatype with the
  exported sentinel \<open>ErrStoreNotFound\<close> and one constructor for every other error.
  A Go result \<open>(*T, error)\<close> is a pair of two options (\<open>None\<close> is \<open>nil\<close>): Go
  returns both components, and the code under study does return a value next to an
  error in places. A slice is a list; the \<open>nil\<close> slice is the empty list.
\<close>

type_synonym snowflake = "64 word"

datatype error = ErrStoreNotFound | Err string

text \<open>Of \<open>discord.Guild\<close> the code reads the identifier only; the name stands for the
  remaining fields.\<close>

record guild =
  guild_ID :: snowflake
  guild_Name :: string

section \<open>Package api: ranged and bulk guild fetch (api/guild.go)\<close>

text \<open>
  The anonymous \<open>param\<close> struct of \<open>GuildsRange\<close>, which \<open>httputil.WithSchema\<close>
  encodes into the query of \<open>GET /users/@me/guilds\<close>.
\<close>

record guilds_param =
  param_Before :: snowflake
  param_After :: snowflake
  param_Limit :: nat

text \<open>
  \<open>Client.RequestJSON\<close> is the REST transport, outside the sources: it is the
  parameter \<open>rt\<close>, a function from the request sent to the decoded response. The
  client's state is the list of requests it has sent so far. Go's \<open>uint\<close> is a
  \<open>nat\<close>: the only subtraction, \<open>max -= fetch\<close>, runs with \<open>fetch \<le> max\<close>.
  The parameter \<open>before\<close> is \<open>beforeID\<close> here.
\<close>

type_synonym transport = "guilds_param \<Rightarrow> guild list \<times> error option"

definition GuildsRange ::
  "transport \<Rightarrow> snowflake \<Rightarrow> snowflake \<Rightarrow> nat \<Rightarrow> guilds_param list
    \<Rightarrow> (guild list \<times> error option) \<times> guilds_param list" where
  "GuildsRange rt beforeID after limit sent =
     (let limit = (if limit = 0 then 100 else limit);
          limit = (if limit > 100 then 100 else limit);
          param = \<lparr>param_Before = beforeID, param_After = after, param_Limit = limit\<rparr>
      in (rt param, sent @ [param]))"

definition GuildsBefore ::
  "transport \<Rightarrow> snowflake \<Rightarrow> nat \<Rightarrow> guilds_param list
    \<Rightarrow> (guild list \<times> error option) \<times> guilds_param list" where
  "GuildsBefore rt beforeID limit sent = GuildsRange rt beforeID 0 limit sent"

definition GuildsAfter ::
  "transport \<Rightarrow> snowflake \<Rightarrow> nat \<Rightarrow> guilds_param list
    \<Rightarrow> (guild list \<times> error option) \<times> guilds_param list" where
  "GuildsAfter rt after limit sent = GuildsRange rt 0 after limit sent"

definition hardLimit :: nat where
  "hardLimit = 100"

text \<open>
  The \<open>for\<close> loop of \<open>Client.Guilds\<close>, entered with the loop variables \<open>max\<close> (here \<open>maxn\<close>),
  \<open>after\<close> and \<open>guilds\<close>. \<open>fetch\<close> is reset to \<open>hardLimit\<close> at the start of every
  iteration, and the body tests \<open>max > 0\<close> once more before it lowers \<open>fetch\<close> and
  \<open>max\<close>. \<open>g[hardLimit-1]\<close> is read only when \<open>len(g) \<ge> hardLimit\<close>.
\<close>

function Guilds_loop ::
  "transport \<Rightarrow> nat \<Rightarrow> snowflake \<Rightarrow> guild list \<Rightarrow> guilds_param list
    \<Rightarrow> (guild list \<times> error option) \<times> guilds_param list" where
  "Guilds_loop rt maxn after guilds sent =
     (if maxn > 0 then
        (let fetch = hardLimit;
             fetch = (if maxn > 0 \<and> fetch > maxn then maxn else fetch);
             maxn = (if maxn > 0 then maxn - fetch else maxn)
         in case GuildsAfter rt after fetch sent of
              ((g, Some err), sent') \<Rightarrow> ((guilds, Some err), sent')
            | ((g, None), sent') \<Rightarrow>
                (let guilds = guilds @ g
                 in if length g < hardLimit then ((guilds, None), sent')
                    else Guilds_loop rt maxn (guild_ID (g ! (hardLimit - 1))) guilds sent'))
      else ((guilds, None), sent))"
  by pat_completeness auto
termination
  by (relation "measure (\<lambda>(rt, maxn, after, guilds, sent). maxn)")
     (auto simp: hardLimit_def)

declare Guilds_loop.simps [simp del]

definition Guilds ::
  "transport \<Rightarrow> nat \<Rightarrow> guilds_param list
    \<Rightarrow> (guild list \<times> error option) \<times> guilds_param list" where
  "Guilds rt maxn sent = Guilds_loop rt maxn 0 [] sent"

text \<open>
  The remote service of the pagination property: it holds the guilds \<open>gs\<close> and answers
  a request with the first \<open>param_Limit\<close> guilds whose identifier lies strictly
  between the bounds; a bound of 0 is an unset bound.
\<close>

definition source_page :: "guild list \<Rightarrow> transport" where
  "source_page gs p =
     (take (param_Limit p)
        (filter (\<lambda>g. (param_After p = 0 \<or> param_After p < guild_ID g) \<and>
                     (param_Before p = 0 \<or> guild_ID g < param_Before p)) gs),
      None)"

text \<open>
  The requests of one enumeration against that service: every request is unbounded above
  and asks for 1 to 100 guilds, and a request is followed by another one only when its
  page came back full, with the identifier of the last guild of the page as the cursor.
\<close>

definition paged :: "guild list \<Rightarrow> guilds_param list \<Rightarrow> bool" where
  "paged gs reqs \<longleftrightarrow>
     (\<forall>p \<in> set reqs.
        param_Before p = 0 \<and> 1 \<le> param_Limit p \<and> param_Limit p \<le> 100) \<and>
     (\<forall>i. Suc i < length reqs \<longrightarrow>
        length (fst (source_page gs (reqs ! i))) = param_Limit (reqs ! i) \<and>
        param_After (reqs ! Suc i) = guild_ID (last (fst (source_page gs (reqs ! i)))))"

text \<open>The guilds with the identifiers 1 to \<open>n\<close>, for the examples.\<close>

definition guilds_upto :: "nat \<Rightarrow> guild list" where
  "guilds_upto n = map (\<lambda>i. \<lparr>guild_ID = of_nat (Suc i), guild_Name = ''''\<rparr>) [0..<n]"

section \<open>Package state: entities, Store and Session\<close>

text \<open>
  The entity types of package \<open>discord\<close> are outside the sources. Each record has the
  fields that \<open>state.go\<close> reads or writes, and a name or content field standing for
  the rest.
\<close>

record user =
  user_ID :: snowflake
  Username :: string

record channel =
  channel_ID :: snowflake
  channel_GuildID :: snowflake

record member =
  User :: user
  Nick :: string

record message =
  message_ID :: snowflake
  message_ChannelID :: snowflake
  message_GuildID :: snowflake
  Author :: user
  Content :: string

record role =
  role_ID :: snowflake
  role_Name :: string

record emoji =
  emoji_ID :: snowflake
  emoji_Name :: string

record presence =
  presence_User :: snowflake
  presence_Status :: string

type_synonym color = "32 word"

text \<open>
  What \<open>state.go\<close> uses of package \<open>discord\<close> besides the types: the method
  \<open>Snowflake.Valid\<close>, the constant \<open>DefaultMemberColor\<close> and the function
  \<open>MemberColor\<close>. They are parameters.
\<close>

record discord =
  Valid :: "snowflake \<Rightarrow> bool"
  DefaultMemberColor :: color
  MemberColor :: "guild \<Rightarrow> member \<Rightarrow> color"

text \<open>
  The \<open>Store\<close> interface (\<open>StoreGetter\<close> and \<open>StoreModifier\<close>), restricted to the
  methods that \<open>state.go\<close> calls. An implementation is a record of functions over its
  own state \<open>'st\<close>: a getter reads the state, a modifier returns its error and the
  new state. A pointer result is an option.

  A modifier takes a pointer, and what it does with the pointer is its own affair: it may
  copy the object at once, or keep the pointer and read the object later. Where
  \<open>state.go\<close> hands over a pointer to an object that it does not write afterwards (the
  object just fetched, an element \<open>&ms[i]\<close> of the slice just fetched), keeping the
  pointer and copying the object come to the same, and the model hands over the object,
  as an option. The \<open>range\<close> loops of \<open>Channels\<close>, \<open>Guilds\<close>, \<open>Members\<close>,
  \<open>Role\<close> and \<open>Roles\<close> hand over the address \<open>&x\<close> of their loop variable, which
  is one variable for the whole loop (Go before 1.22) and is assigned the next element
  in the next iteration: a store that has kept the pointer reads the new element from
  then on. For these loops the record has, for each of the four entity types,
  \<^item> the modifier called with the address of the loop variable \<open>n\<close> while the variable
    holds \<open>x\<close> (\<open>Store_ChannelSet_var st n x\<close>), and
  \<^item> what the assignment of \<open>x\<close> to the loop variable \<open>n\<close> does to the state of the
    store (\<open>Store_Channel_assign st n x\<close>): nothing for a store that copies, a new
    value under every key for which the store kept that address.

  The state \<open>'st\<close> is all that the store reads, the loop variables behind the pointers
  it has kept included. A store is taken to read through the pointers it is handed, not
  to write through them.
\<close>

record 'st Store =
  Store_Self :: "'st \<Rightarrow> user option \<times> error option"
  Store_Channel :: "'st \<Rightarrow> snowflake \<Rightarrow> channel option \<times> error option"
  Store_Channels :: "'st \<Rightarrow> snowflake \<Rightarrow> channel list \<times> error option"
  Store_Emoji :: "'st \<Rightarrow> snowflake \<Rightarrow> snowflake \<Rightarrow> emoji option \<times> error option"
  Store_Emojis :: "'st \<Rightarrow> snowflake \<Rightarrow> emoji list \<times> error option"
  Store_Guild :: "'st \<Rightarrow> snowflake \<Rightarrow> guild option \<times> error option"
  Store_Guilds :: "'st \<Rightarrow> guild list \<times> error option"
  Store_Member :: "'st \<Rightarrow> snowflake \<Rightarrow> snowflake \<Rightarrow> member option \<times> error option"
  Store_Members :: "'st \<Rightarrow> snowflake \<Rightarrow> member list \<times> error option"
  Store_Message :: "'st \<Rightarrow> snowflake \<Rightarrow> snowflake \<Rightarrow> message option \<times> error option"
  Store_Messages :: "'st \<Rightarrow> snowflake \<Rightarrow> message list \<times> error option"
  Store_MaxMessages :: "'st \<Rightarrow> int"
  Store_Presence :: "'st \<Rightarrow> snowflake \<Rightarrow> snowflake \<Rightarrow> presence option \<times> error option"
  Store_Presences :: "'st \<Rightarrow> snowflake \<Rightarrow> presence list \<times> error option"
  Store_Role :: "'st \<Rightarrow> snowflake \<Rightarrow> snowflake \<Rightarrow> role option \<times> error option"
  Store_Roles :: "'st \<Rightarrow> snowflake \<Rightarrow> role list \<times> error option"
  Store_SelfSet :: "'st \<Rightarrow> user option \<Rightarrow> error option \<times> 'st"
  Store_ChannelSet :: "'st \<Rightarrow> channel option \<Rightarrow> error option \<times> 'st"
  Store_EmojiSet :: "'st \<Rightarrow> snowflake \<Rightarrow> emoji list \<Rightarrow> error option \<times> 'st"
  Store_GuildSet :: "'st \<Rightarrow> guild option \<Rightarrow> error option \<times> 'st"
  Store_MemberSet :: "'st \<Rightarrow> snowflake \<Rightarrow> member option \<Rightarrow> error option \<times> 'st"
  Store_MessageSet :: "'st \<Rightarrow> message option \<Rightarrow> error option \<times> 'st"
  Store_RoleSet :: "'st \<Rightarrow> snowflake \<Rightarrow> role option \<Rightarrow> error option \<times> 'st"
  Store_ChannelSet_var :: "'st \<Rightarrow> nat \<Rightarrow> channel \<Rightarrow> error option \<times> 'st"
  Store_Channel_assign :: "'st \<Rightarrow> nat \<Rightarrow> channel \<Rightarrow> 'st"
  Store_GuildSet_var :: "'st \<Rightarrow> nat \<Rightarrow> guild \<Rightarrow> error option \<times> 'st"
  Store_Guild_assign :: "'st \<Rightarrow> nat \<Rightarrow> guild \<Rightarrow> 'st"
  Store_MemberSet_var :: "'st \<Rightarrow> snowflake \<Rightarrow> nat \<Rightarrow> member \<Rightarrow> error option \<times> 'st"
  Store_Member_assign :: "'st \<Rightarrow> nat \<Rightarrow> member \<Rightarrow> 'st"
  Store_RoleSet_var :: "'st \<Rightarrow> snowflake \<Rightarrow> nat \<Rightarrow> role \<Rightarrow> error option \<times> 'st"
  Store_Role_assign :: "'st \<Rightarrow> nat \<Rightarrow> role \<Rightarrow> 'st"

text \<open>
  A request made through the embedded \<open>*session.Session\<close>: the methods of the pull API
  that \<open>state.go\<close> calls, and the gateway command \<open>RequestGuildMembers\<close>, which
  goes out on the push channel and fetches nothing.
\<close>

datatype call =
    CallMe
  | CallChannel snowflake
  | CallChannels snowflake
  | CallEmojis snowflake
  | CallGuild snowflake
  | CallGuilds nat
  | CallMember snowflake snowflake
  | CallMembers snowflake nat
  | CallMessage snowflake snowflake
  | CallMessages snowflake nat
  | CallRoles snowflake
  | CallRequestGuildMembers snowflake

fun is_fetch :: "call \<Rightarrow> bool" where
  "is_fetch (CallRequestGuildMembers g) = False"
| "is_fetch c = True"

text \<open>
  The session is outside the sources. The remote service may answer the same request
  differently over time, so every answer is a function of the requests made before it
  (the first argument) and of the request.
\<close>

record Session =
  Session_Me :: "call list \<Rightarrow> user option \<times> error option"
  Session_Channel :: "call list \<Rightarrow> snowflake \<Rightarrow> channel option \<times> error option"
  Session_Channels :: "call list \<Rightarrow> snowflake \<Rightarrow> channel list \<times> error option"
  Session_Emojis :: "call list \<Rightarrow> snowflake \<Rightarrow> emoji list \<times> error option"
  Session_Guild :: "call list \<Rightarrow> snowflake \<Rightarrow> guild option \<times> error option"
  Session_Guilds :: "call list \<Rightarrow> nat \<Rightarrow> guild list \<times> error option"
  Session_Member :: "call list \<Rightarrow> snowflake \<Rightarrow> snowflake \<Rightarrow> member option \<times> error option"
  Session_Members :: "call list \<Rightarrow> snowflake \<Rightarrow> nat \<Rightarrow> member list \<times> error option"
  Session_Message :: "call list \<Rightarrow> snowflake \<Rightarrow> snowflake \<Rightarrow> message option \<times> error option"
  Session_Messages :: "call list \<Rightarrow> snowflake \<Rightarrow> nat \<Rightarrow> message list \<times> error option"
  Session_Roles :: "call list \<Rightarrow> snowflake \<Rightarrow> role list \<times> error option"
  Gateway_RequestGuildMembers :: "call list \<Rightarrow> snowflake \<Rightarrow> error option"

text \<open>
  The \<open>State\<close> struct: the state of the storage behind its \<open>Store\<close>, the list
  \<open>fewMessages\<close>, and the requests made through its session so far. The other fields
  are not touched by the accessors. The accessors run one at a time here; \<open>fewMutex\<close>
  has no counterpart.
\<close>

record 'st State =
  store :: 'st
  fewMessages :: "snowflake list"
  calls :: "call list"

text \<open>The package variables, at their initial values.\<close>

definition MaxFetchMembers :: nat where
  "MaxFetchMembers = 1000"

definition MaxFetchGuilds :: nat where
  "MaxFetchGuilds = 100"

text \<open>The requests of a state that fetch: all but the gateway command.\<close>

definition fetches :: "'st State \<Rightarrow> call list" where
  "fetches s = filter is_fetch (calls s)"

text \<open>
  A nil pointer dereference or a slice bound out of range is a panic: the accessors that
  can reach one return an outcome.
\<close>

datatype 'a outcome = Panic | Return 'a

section \<open>Package state: the accessors (state/state.go)\<close>

text \<open>
  Every execution of a \<open>range\<close> loop has a loop variable of its own. The model names
  it by the number of requests made when the loop starts: each of the loops comes right
  after a request of its own call, so that no two executions share a name.
\<close>

definition loop_var :: "'st State \<Rightarrow> nat" where
  "loop_var s = length (calls s)"

text \<open>
  The loop \<open>for _, x := range xs { if err := put(&x); err != nil { return ..., err } }\<close>
  of \<open>Channels\<close>, \<open>Guilds\<close>, \<open>Members\<close> and \<open>Roles\<close>, with the loop variable
  \<open>n\<close>: an iteration assigns the next element to the variable and calls the modifier
  with the address of the variable. The loop stops at the first write that fails.
\<close>

fun range_var_set ::
  "('st \<Rightarrow> nat \<Rightarrow> 'a \<Rightarrow> error option \<times> 'st) \<Rightarrow> ('st \<Rightarrow> nat \<Rightarrow> 'a \<Rightarrow> 'st) \<Rightarrow> nat
    \<Rightarrow> 'a list \<Rightarrow> 'st \<Rightarrow> error option \<times> 'st" where
  "range_var_set put assign n [] st = (None, st)"
| "range_var_set put assign n (x # xs) st =
     (let st = assign st n x;
          (err, st) = put st n x
      in if err \<noteq> None then (err, st) else range_var_set put assign n xs st)"

definition State_Self ::
  "'st Store \<Rightarrow> Session \<Rightarrow> 'st State \<Rightarrow> (user option \<times> error option) \<times> 'st State" where
  "State_Self S A s =
     (let (u, err) = Store_Self S (store s)
      in if err = None then ((u, None), s)
         else let (u, err) = Session_Me A (calls s);
                  s = s\<lparr>calls := calls s @ [CallMe]\<rparr>
              in if err \<noteq> None then ((None, err), s)
                 else let (err, st) = Store_SelfSet S (store s) u
                      in ((u, err), s\<lparr>store := st\<rparr>))"

definition State_Channel ::
  "'st Store \<Rightarrow> Session \<Rightarrow> snowflake \<Rightarrow> 'st State
    \<Rightarrow> (channel option \<times> error option) \<times> 'st State" where
  "State_Channel S A id' s =
     (let (c, err) = Store_Channel S (store s) id'
      in if err = None then ((c, None), s)
         else let (c, err) = Session_Channel A (calls s) id';
                  s = s\<lparr>calls := calls s @ [CallChannel id']\<rparr>
              in if err \<noteq> None then ((None, err), s)
                 else let (err, st) = Store_ChannelSet S (store s) c
                      in ((c, err), s\<lparr>store := st\<rparr>))"

definition State_Channels ::
  "'st Store \<Rightarrow> Session \<Rightarrow> snowflake \<Rightarrow> 'st State
    \<Rightarrow> (channel list \<times> error option) \<times> 'st State" where
  "State_Channels S A guildID s =
     (let (c, err) = Store_Channels S (store s) guildID
      in if err = None then ((c, None), s)
         else let (c, err) = Session_Channels A (calls s) guildID;
                  s = s\<lparr>calls := calls s @ [CallChannels guildID]\<rparr>
              in if err \<noteq> None then (([], err), s)
                 else let (err, st) = range_var_set (Store_ChannelSet_var S) (Store_Channel_assign S)
                                         (loop_var s) c (store s)
                      in if err \<noteq> None then (([], err), s\<lparr>store := st\<rparr>)
                         else ((c, None), s\<lparr>store := st\<rparr>))"

definition State_Emoji ::
  "'st Store \<Rightarrow> Session \<Rightarrow> snowflake \<Rightarrow> snowflake \<Rightarrow> 'st State
    \<Rightarrow> (emoji option \<times> error option) \<times> 'st State" where
  "State_Emoji S A guildID emojiID s =
     (let (e, err) = Store_Emoji S (store s) guildID emojiID
      in if err = None then ((e, None), s)
         else let (es, err) = Session_Emojis A (calls s) guildID;
                  s = s\<lparr>calls := calls s @ [CallEmojis guildID]\<rparr>
              in if err \<noteq> None then ((None, err), s)
                 else let (err, st) = Store_EmojiSet S (store s) guildID es;
                          s = s\<lparr>store := st\<rparr>
                      in if err \<noteq> None then ((None, err), s)
                         else case find (\<lambda>e. emoji_ID e = emojiID) es of
                                Some e \<Rightarrow> ((Some e, None), s)
                              | None \<Rightarrow> ((None, Some ErrStoreNotFound), s))"

definition State_Emojis ::
  "'st Store \<Rightarrow> Session \<Rightarrow> snowflake \<Rightarrow> 'st State
    \<Rightarrow> (emoji list \<times> error option) \<times> 'st State" where
  "State_Emojis S A guildID s =
     (let (e, err) = Store_Emojis S (store s) guildID
      in if err = None then ((e, None), s)
         else let (es, err) = Session_Emojis A (calls s) guildID;
                  s = s\<lparr>calls := calls s @ [CallEmojis guildID]\<rparr>
              in if err \<noteq> None then (([], err), s)
                 else let (err, st) = Store_EmojiSet S (store s) guildID es
                      in ((es, err), s\<lparr>store := st\<rparr>))"

definition State_Guild ::
  "'st Store \<Rightarrow> Session \<Rightarrow> snowflake \<Rightarrow> 'st State
    \<Rightarrow> (guild option \<times> error option) \<times> 'st State" where
  "State_Guild S A id' s =
     (let (c, err) = Store_Guild S (store s) id'
      in if err = None then ((c, None), s)
         else let (c, err) = Session_Guild A (calls s) id';
                  s = s\<lparr>calls := calls s @ [CallGuild id']\<rparr>
              in if err \<noteq> None then ((None, err), s)
                 else let (err, st) = Store_GuildSet S (store s) c
                      in ((c, err), s\<lparr>store := st\<rparr>))"

definition State_Guilds ::
  "'st Store \<Rightarrow> Session \<Rightarrow> 'st State \<Rightarrow> (guild list \<times> error option) \<times> 'st State" where
  "State_Guilds S A s =
     (let (c, err) = Store_Guilds S (store s)
      in if err = None then ((c, None), s)
         else let (c, err) = Session_Guilds A (calls s) MaxFetchGuilds;
                  s = s\<lparr>calls := calls s @ [CallGuilds MaxFetchGuilds]\<rparr>
              in if err \<noteq> None then (([], err), s)
                 else let (err, st) = range_var_set (Store_GuildSet_var S) (Store_Guild_assign S)
                                         (loop_var s) c (store s)
                      in if err \<noteq> None then (([], err), s\<lparr>store := st\<rparr>)
                         else ((c, None), s\<lparr>store := st\<rparr>))"

definition State_Member ::
  "'st Store \<Rightarrow> Session \<Rightarrow> snowflake \<Rightarrow> snowflake \<Rightarrow> 'st State
    \<Rightarrow> (member option \<times> error option) \<times> 'st State" where
  "State_Member S A guildID userID s =
     (let (m, err) = Store_Member S (store s) guildID userID
      in if err = None then ((m, None), s)
         else let (m, err) = Session_Member A (calls s) guildID userID;
                  s = s\<lparr>calls := calls s @ [CallMember guildID userID]\<rparr>
              in if err \<noteq> None then ((None, err), s)
                 else let (err, st) = Store_MemberSet S (store s) guildID m
                      in ((m, err), s\<lparr>store := st\<rparr>))"

definition State_Members ::
  "'st Store \<Rightarrow> Session \<Rightarrow> snowflake \<Rightarrow> 'st State
    \<Rightarrow> (member list \<times> error option) \<times> 'st State" where
  "State_Members S A guildID s =
     (let (ms, err) = Store_Members S (store s) guildID
      in if err = None then ((ms, None), s)
         else let (ms, err) = Session_Members A (calls s) guildID MaxFetchMembers;
                  s = s\<lparr>calls := calls s @ [CallMembers guildID MaxFetchMembers]\<rparr>
              in if err \<noteq> None then (([], err), s)
                 else let (err, st) = range_var_set (\<lambda>st. Store_MemberSet_var S st guildID)
                                         (Store_Member_assign S) (loop_var s) ms (store s);
                          s = s\<lparr>store := st\<rparr>
                      in if err \<noteq> None then (([], err), s)
                         else ((ms, Gateway_RequestGuildMembers A (calls s) guildID),
                               s\<lparr>calls := calls s @ [CallRequestGuildMembers guildID]\<rparr>))"

text \<open>
  \<open>Message\<close> dereferences \<open>m\<close> and \<open>c\<close> in \<open>m.GuildID = c.GuildID\<close>: when the
  session or the channel lookup hands back a nil pointer without an error, it panics.
\<close>

definition State_Message ::
  "'st Store \<Rightarrow> Session \<Rightarrow> snowflake \<Rightarrow> snowflake \<Rightarrow> 'st State
    \<Rightarrow> (message option \<times> error option) outcome \<times> 'st State" where
  "State_Message S A channelID messageID s =
     (let (m, err) = Store_Message S (store s) channelID messageID
      in if err = None then (Return (m, None), s)
         else let (m, err) = Session_Message A (calls s) channelID messageID;
                  s = s\<lparr>calls := calls s @ [CallMessage channelID messageID]\<rparr>
              in if err \<noteq> None then (Return (None, err), s)
                 else let ((c, err), s) = State_Channel S A channelID s
                      in if err = None then
                           (case (m, c) of
                              (Some m, Some c) \<Rightarrow>
                                (let m = Some (m\<lparr>message_GuildID := channel_GuildID c\<rparr>);
                                     (err, st) = Store_MessageSet S (store s) m
                                 in (Return (m, err), s\<lparr>store := st\<rparr>))
                            | _ \<Rightarrow> (Panic, s))
                         else let (err, st) = Store_MessageSet S (store s) m
                              in (Return (m, err), s\<lparr>store := st\<rparr>))"

text \<open>
  The loop \<open>for i := range ms\<close> of \<open>Messages\<close>: it stamps the guild identifier on
  each message and writes the message, and stops at the first write that fails. It
  returns the stamped messages, or the error.
\<close>

fun stamp_set ::
  "'st Store \<Rightarrow> snowflake \<Rightarrow> message list \<Rightarrow> 'st \<Rightarrow> (message list \<times> error option) \<times> 'st" where
  "stamp_set S guildID [] st = (([], None), st)"
| "stamp_set S guildID (m # ms) st =
     (let m = m\<lparr>message_GuildID := guildID\<rparr>;
          (err, st) = Store_MessageSet S st (Some m)
      in if err \<noteq> None then (([], err), st)
         else let ((ms, err), st) = stamp_set S guildID ms st
              in if err \<noteq> None then (([], err), st) else ((m # ms, None), st))"

text \<open>
  The writes of that loop taken alone, for messages stamped already: the messages are
  handed to the modifier one after the other, up to the first write that fails. Each
  pointer \<open>&ms[i]\<close> is to an element of its own, which \<open>Messages\<close> does not write
  again.
\<close>

fun range_set ::
  "('st \<Rightarrow> 'a option \<Rightarrow> error option \<times> 'st) \<Rightarrow> 'a list \<Rightarrow> 'st \<Rightarrow> error option \<times> 'st" where
  "range_set put [] st = (None, st)"
| "range_set put (x # xs) st =
     (let (err, st) = put st (Some x)
      in if err \<noteq> None then (err, st) else range_set put xs st)"

text \<open>
  The part of \<open>Messages\<close> from \<open>s.Session.Messages(channelID, 100)\<close> on.
  \<open>c.GuildID\<close> panics on a nil \<open>c\<close>, and \<open>ms[:maxMsgs]\<close> on a negative \<open>maxMsgs\<close>
  (it is reached with \<open>maxMsgs \<le> len(ms)\<close> only).
\<close>

definition Messages_fetch ::
  "'st Store \<Rightarrow> Session \<Rightarrow> snowflake \<Rightarrow> int \<Rightarrow> 'st State
    \<Rightarrow> (message list \<times> error option) outcome \<times> 'st State" where
  "Messages_fetch S A channelID maxMsgs s =
     (let (ms, err) = Session_Messages A (calls s) channelID 100;
          s = s\<lparr>calls := calls s @ [CallMessages channelID 100]\<rparr>
      in if err \<noteq> None then (Return ([], err), s)
         else let ((c, err), s) = State_Channel S A channelID s
              in case (if err = None then map_option channel_GuildID c else Some 0) of
                   None \<Rightarrow> (Panic, s)
                 | Some guildID \<Rightarrow>
                     (let ((ms, err), st) = stamp_set S guildID ms (store s);
                          s = s\<lparr>store := st\<rparr>
                      in if err \<noteq> None then (Return ([], err), s)
                         else if int (length ms) < maxMsgs then
                           (Return (ms, None), s\<lparr>fewMessages := fewMessages s @ [channelID]\<rparr>)
                         else if maxMsgs < 0 then (Panic, s)
                         else (Return (take (nat maxMsgs) ms, None), s)))"

definition State_Messages ::
  "'st Store \<Rightarrow> Session \<Rightarrow> snowflake \<Rightarrow> 'st State
    \<Rightarrow> (message list \<times> error option) outcome \<times> 'st State" where
  "State_Messages S A channelID s =
     (let maxMsgs = Store_MaxMessages S (store s);
          (ms, err) = Store_Messages S (store s) channelID
      in if err = None then
           if maxMsgs \<le> int (length ms) then (Return (ms, None), s)
           else if channelID \<in> set (fewMessages s) then (Return (ms, None), s)
           else Messages_fetch S A channelID maxMsgs s
         else Messages_fetch S A channelID maxMsgs s)"

text \<open>
  The condition under which \<open>Messages\<close> answers from the storage: the read succeeds,
  and the storage holds \<open>MaxMessages\<close> messages of the channel or more, or the channel
  is in \<open>fewMessages\<close>.
\<close>

definition Messages_warm :: "'st Store \<Rightarrow> snowflake \<Rightarrow> 'st State \<Rightarrow> bool" where
  "Messages_warm S channelID s \<longleftrightarrow>
     snd (Store_Messages S (store s) channelID) = None \<and>
     (Store_MaxMessages S (store s) \<le> int (length (fst (Store_Messages S (store s) channelID)))
      \<or> channelID \<in> set (fewMessages s))"

text \<open>The stamp of the guild identifier on a message.\<close>

definition stamp :: "snowflake \<Rightarrow> message \<Rightarrow> message" where
  "stamp guildID m = m\<lparr>message_GuildID := guildID\<rparr>"

definition State_Presence ::
  "'st Store \<Rightarrow> Session \<Rightarrow> snowflake \<Rightarrow> snowflake \<Rightarrow> 'st State
    \<Rightarrow> (presence option \<times> error option) \<times> 'st State" where
  "State_Presence S A guildID userID s = (Store_Presence S (store s) guildID userID, s)"

definition State_Presences ::
  "'st Store \<Rightarrow> Session \<Rightarrow> snowflake \<Rightarrow> 'st State
    \<Rightarrow> (presence list \<times> error option) \<times> 'st State" where
  "State_Presences S A guildID s = (Store_Presences S (store s) guildID, s)"

text \<open>
  The loop of \<open>Role\<close>. Before Go 1.22 a \<open>range\<close> loop has one variable \<open>r\<close> for all
  its iterations, and \<open>role = &r\<close> takes the address of that variable: the pointer is
  either nil or that address, and \<open>r\<close> is the content of the variable (\<open>None\<close> before
  the first iteration). What the caller finds behind the returned pointer is the content
  of \<open>r\<close> when the function returns. The store is handed the same address \<open>&r\<close>; the
  variable is the loop variable \<open>n\<close> for it.
\<close>

datatype role_ptr = NilRole | AddrOf_r

fun deref :: "role_ptr \<Rightarrow> role option \<Rightarrow> role option" where
  "deref NilRole r = None"
| "deref AddrOf_r r = r"

fun Role_range ::
  "'st Store \<Rightarrow> snowflake \<Rightarrow> snowflake \<Rightarrow> nat \<Rightarrow> role list \<Rightarrow> role_ptr \<Rightarrow> role option \<Rightarrow> 'st
    \<Rightarrow> (role option \<times> error option) \<times> 'st" where
  "Role_range S guildID roleID n [] role r st = ((deref role r, None), st)"
| "Role_range S guildID roleID n (x # rs) role r st =
     (let r = Some x;
          st = Store_Role_assign S st n x;
          role = (if role_ID x = roleID then AddrOf_r else role);
          (err, st) = Store_RoleSet_var S st guildID n x
      in if err \<noteq> None then ((deref role r, err), st)
         else Role_range S guildID roleID n rs role r st)"

definition State_Role ::
  "'st Store \<Rightarrow> Session \<Rightarrow> snowflake \<Rightarrow> snowflake \<Rightarrow> 'st State
    \<Rightarrow> (role option \<times> error option) \<times> 'st State" where
  "State_Role S A guildID roleID s =
     (let (r, err) = Store_Role S (store s) guildID roleID
      in if err = None then ((r, None), s)
         else let (rs, err) = Session_Roles A (calls s) guildID;
                  s = s\<lparr>calls := calls s @ [CallRoles guildID]\<rparr>
              in if err \<noteq> None then ((None, err), s)
                 else let (res, st) = Role_range S guildID roleID (loop_var s) rs NilRole None (store s)
                      in (res, s\<lparr>store := st\<rparr>))"

definition State_Roles ::
  "'st Store \<Rightarrow> Session \<Rightarrow> snowflake \<Rightarrow> 'st State
    \<Rightarrow> (role list \<times> error option) \<times> 'st State" where
  "State_Roles S A guildID s =
     (let (rs, err) = Store_Roles S (store s) guildID
      in if err = None then ((rs, None), s)
         else let (rs, err) = Session_Roles A (calls s) guildID;
                  s = s\<lparr>calls := calls s @ [CallRoles guildID]\<rparr>
              in if err \<noteq> None then (([], err), s)
                 else let (err, st) = range_var_set (\<lambda>st. Store_RoleSet_var S st guildID)
                                         (Store_Role_assign S) (loop_var s) rs (store s)
                      in ((rs, err), s\<lparr>store := st\<rparr>))"

subsection \<open>The read-through contract\<close>

text \<open>
  The fill policy of an accessor \<open>X\<close>, in the words of the specification. \<open>X\<close> reads
  the storage with \<open>rd\<close>, fetches with the request \<open>c\<close>, which the remote service
  answers with \<open>ft\<close>, writes what it fetched with \<open>wr\<close>, and \<open>res\<close> is its result for
  what it fetched; \<open>ft\<close>, \<open>wr\<close> and \<open>res\<close> are given the requests made before.
  \<^item> When the read succeeds, \<open>X\<close> returns the value read and leaves the state as it
    was: no request is made.
  \<^item> When the read fails, \<open>X\<close> makes the one fetch \<open>c\<close>.
  \<^item> When that fetch succeeds with \<open>w\<close>, \<open>X\<close> leaves the storage as the write of \<open>w\<close>
    leaves it.
  \<^item> When the write succeeds too, \<open>X\<close> returns \<open>res w\<close>.
  \<^item> When moreover \<open>res w\<close> is a value \<open>v\<close> without an error, and the storage as the
    write left it serves the key with \<open>v\<close>, the next \<open>X\<close> returns \<open>v\<close> and leaves
    the state as it was.
\<close>

definition read_through ::
  "('st State \<Rightarrow> ('v \<times> error option) \<times> 'st State) \<Rightarrow> ('st \<Rightarrow> 'v \<times> error option) \<Rightarrow> call
    \<Rightarrow> (call list \<Rightarrow> 'w \<times> error option) \<Rightarrow> (call list \<Rightarrow> 'w \<Rightarrow> 'st \<Rightarrow> error option \<times> 'st)
    \<Rightarrow> (call list \<Rightarrow> 'w \<Rightarrow> 'v \<times> error option) \<Rightarrow> bool" where
  "read_through X rd c ft wr res \<longleftrightarrow>
     (\<forall>s. (snd (rd (store s)) = None \<longrightarrow> X s = ((fst (rd (store s)), None), s))
        \<and> (snd (rd (store s)) \<noteq> None \<longrightarrow>
             fetches (snd (X s)) = fetches s @ [c]
           \<and> (\<forall>w err st. ft (calls s) = (w, None) \<and> wr (calls s) w (store s) = (err, st) \<longrightarrow>
                  store (snd (X s)) = st
                \<and> (err = None \<longrightarrow>
                       fst (X s) = res (calls s) w
                     \<and> (\<forall>v. res (calls s) w = (v, None) \<and> rd st = (v, None) \<longrightarrow>
                            X (snd (X s)) = ((v, None), snd (X s)))))))"

text \<open>The result of \<open>Emoji\<close> for the emojis it fetched: the first one with the identifier.\<close>

definition Emoji_found :: "snowflake \<Rightarrow> emoji list \<Rightarrow> emoji option \<times> error option" where
  "Emoji_found emojiID es =
     (case find (\<lambda>e. emoji_ID e = emojiID) es of
        Some e \<Rightarrow> (Some e, None)
      | None \<Rightarrow> (None, Some ErrStoreNotFound))"

subsection \<open>Helper methods\<close>

text \<open>\<open>member.Nick\<close> panics on a nil \<open>member\<close>, \<open>*guild\<close> and \<open>*member\<close> on nil.\<close>

definition State_MemberDisplayName ::
  "'st Store \<Rightarrow> Session \<Rightarrow> snowflake \<Rightarrow> snowflake \<Rightarrow> 'st State
    \<Rightarrow> (string \<times> error option) outcome \<times> 'st State" where
  "State_MemberDisplayName S A guildID userID s =
     (let ((member, err), s) = State_Member S A guildID userID s
      in if err \<noteq> None then (Return ('''', err), s)
         else case member of
                None \<Rightarrow> (Panic, s)
              | Some member \<Rightarrow>
                  if Nick member = '''' then (Return (Username (User member), None), s)
                  else (Return (Nick member, None), s))"

definition State_AuthorDisplayName ::
  "discord \<Rightarrow> 'st Store \<Rightarrow> Session \<Rightarrow> message \<Rightarrow> 'st State \<Rightarrow> string outcome \<times> 'st State" where
  "State_AuthorDisplayName D S A message s =
     (if \<not> Valid D (message_GuildID message) then (Return (Username (Author message)), s)
      else case State_MemberDisplayName S A (message_GuildID message)
                  (user_ID (Author message)) s of
             (Panic, s) \<Rightarrow> (Panic, s)
           | (Return (n, err), s) \<Rightarrow>
               if err \<noteq> None then (Return (Username (Author message)), s)
               else (Return n, s))"

definition State_MemberColor ::
  "discord \<Rightarrow> 'st Store \<Rightarrow> Session \<Rightarrow> snowflake \<Rightarrow> snowflake \<Rightarrow> 'st State
    \<Rightarrow> color outcome \<times> 'st State" where
  "State_MemberColor D S A guildID userID s =
     (let ((member, err), s) = State_Member S A guildID userID s
      in if err \<noteq> None then (Return (DefaultMemberColor D), s)
         else let ((guild, err), s) = State_Guild S A guildID s
              in if err \<noteq> None then (Return (DefaultMemberColor D), s)
                 else case (guild, member) of
                        (Some guild, Some member) \<Rightarrow> (Return (MemberColor D guild member), s)
                      | _ \<Rightarrow> (Panic, s))"

definition State_AuthorColor ::
  "discord \<Rightarrow> 'st Store \<Rightarrow> Session \<Rightarrow> message \<Rightarrow> 'st State \<Rightarrow> color outcome \<times> 'st State" where
  "State_AuthorColor D S A message s =
     (if \<not> Valid D (message_GuildID message) then (Return (DefaultMemberColor D), s)
      else State_MemberColor D S A (message_GuildID message) (user_ID (Author message)) s)"

section \<open>A store and a session for the examples\<close>

text \<open>
  \<open>Store\<close> is an interface, so the examples need an implementation: \<open>mem_Store\<close>
  keeps every entity in a list, answers a missing key with \<open>ErrStoreNotFound\<close> and
  refuses every write when \<open>m_readonly\<close> is set. It copies what it is handed, so that
  an assignment to a loop variable does not reach it. It is not the repository's default
  store, whose source is not at hand.
\<close>

record mem =
  m_self :: "user option"
  m_channels :: "channel list"
  m_emojis :: "(snowflake \<times> emoji list) list"
  m_guilds :: "guild list"
  m_members :: "(snowflake \<times> member) list"
  m_messages :: "message list"
  m_presences :: "(snowflake \<times> presence) list"
  m_roles :: "(snowflake \<times> role) list"
  m_max :: int
  m_readonly :: bool

definition found :: "'a option \<Rightarrow> 'a option \<times> error option" where
  "found x = (case x of None \<Rightarrow> (None, Some ErrStoreNotFound) | Some v \<Rightarrow> (Some v, None))"

definition found_all :: "'a list \<Rightarrow> 'a list \<times> error option" where
  "found_all xs = (if xs = [] then ([], Some ErrStoreNotFound) else (xs, None))"

fun upsert :: "('a \<Rightarrow> bool) \<Rightarrow> 'a \<Rightarrow> 'a list \<Rightarrow> 'a list" where
  "upsert same v [] = [v]"
| "upsert same v (x # xs) = (if same x then v # xs else x # upsert same v xs)"

definition writing ::
  "mem \<Rightarrow> 'a option \<Rightarrow> ('a \<Rightarrow> mem) \<Rightarrow> error option \<times> mem" where
  "writing st p upd =
     (case p of
        None \<Rightarrow> (Some (Err ''nil''), st)
      | Some v \<Rightarrow> if m_readonly st then (Some (Err ''read-only''), st) else (None, upd v))"

definition mem_Store :: "mem Store" where
  "mem_Store = \<lparr>
     Store_Self = (\<lambda>st. found (m_self st)),
     Store_Channel = (\<lambda>st i. found (find (\<lambda>c. channel_ID c = i) (m_channels st))),
     Store_Channels = (\<lambda>st g. found_all (filter (\<lambda>c. channel_GuildID c = g) (m_channels st))),
     Store_Emoji = (\<lambda>st g i.
       found (find (\<lambda>e. emoji_ID e = i) (concat (map snd (filter (\<lambda>p. fst p = g) (m_emojis st)))))),
     Store_Emojis = (\<lambda>st g. found_all (concat (map snd (filter (\<lambda>p. fst p = g) (m_emojis st))))),
     Store_Guild = (\<lambda>st i. found (find (\<lambda>g. guild_ID g = i) (m_guilds st))),
     Store_Guilds = (\<lambda>st. found_all (m_guilds st)),
     Store_Member = (\<lambda>st g u.
       found (map_option snd (find (\<lambda>p. fst p = g \<and> user_ID (User (snd p)) = u) (m_members st)))),
     Store_Members = (\<lambda>st g. found_all (map snd (filter (\<lambda>p. fst p = g) (m_members st)))),
     Store_Message = (\<lambda>st c i.
       found (find (\<lambda>m. message_ChannelID m = c \<and> message_ID m = i) (m_messages st))),
     Store_Messages = (\<lambda>st c. found_all (filter (\<lambda>m. message_ChannelID m = c) (m_messages st))),
     Store_MaxMessages = m_max,
     Store_Presence = (\<lambda>st g u.
       found (map_option snd (find (\<lambda>p. fst p = g \<and> presence_User (snd p) = u) (m_presences st)))),
     Store_Presences = (\<lambda>st g. found_all (map snd (filter (\<lambda>p. fst p = g) (m_presences st)))),
     Store_Role = (\<lambda>st g i.
       found (map_option snd (find (\<lambda>p. fst p = g \<and> role_ID (snd p) = i) (m_roles st)))),
     Store_Roles = (\<lambda>st g. found_all (map snd (filter (\<lambda>p. fst p = g) (m_roles st)))),
     Store_SelfSet = (\<lambda>st u. writing st u (\<lambda>u. st\<lparr>m_self := Some u\<rparr>)),
     Store_ChannelSet = (\<lambda>st c. writing st c (\<lambda>c.
       st\<lparr>m_channels := upsert (\<lambda>x. channel_ID x = channel_ID c) c (m_channels st)\<rparr>)),
     Store_EmojiSet = (\<lambda>st g es. writing st (Some es) (\<lambda>es.
       st\<lparr>m_emojis := upsert (\<lambda>p. fst p = g) (g, es) (m_emojis st)\<rparr>)),
     Store_GuildSet = (\<lambda>st g. writing st g (\<lambda>g.
       st\<lparr>m_guilds := upsert (\<lambda>x. guild_ID x = guild_ID g) g (m_guilds st)\<rparr>)),
     Store_MemberSet = (\<lambda>st g m. writing st m (\<lambda>m.
       st\<lparr>m_members := upsert (\<lambda>p. fst p = g \<and> user_ID (User (snd p)) = user_ID (User m))
                             (g, m) (m_members st)\<rparr>)),
     Store_MessageSet = (\<lambda>st m. writing st m (\<lambda>m.
       st\<lparr>m_messages := upsert (\<lambda>x. message_ChannelID x = message_ChannelID m \<and>
                                    message_ID x = message_ID m) m (m_messages st)\<rparr>)),
     Store_RoleSet = (\<lambda>st g r. writing st r (\<lambda>r.
       st\<lparr>m_roles := upsert (\<lambda>p. fst p = g \<and> role_ID (snd p) = role_ID r) (g, r) (m_roles st)\<rparr>)),
     Store_ChannelSet_var = (\<lambda>st n c. writing st (Some c) (\<lambda>c.
       st\<lparr>m_channels := upsert (\<lambda>x. channel_ID x = channel_ID c) c (m_channels st)\<rparr>)),
     Store_Channel_assign = (\<lambda>st n c. st),
     Store_GuildSet_var = (\<lambda>st n g. writing st (Some g) (\<lambda>g.
       st\<lparr>m_guilds := upsert (\<lambda>x. guild_ID x = guild_ID g) g (m_guilds st)\<rparr>)),
     Store_Guild_assign = (\<lambda>st n g. st),
     Store_MemberSet_var = (\<lambda>st g n m. writing st (Some m) (\<lambda>m.
       st\<lparr>m_members := upsert (\<lambda>p. fst p = g \<and> user_ID (User (snd p)) = user_ID (User m))
                             (g, m) (m_members st)\<rparr>)),
     Store_Member_assign = (\<lambda>st n m. st),
     Store_RoleSet_var = (\<lambda>st g n r. writing st (Some r) (\<lambda>r.
       st\<lparr>m_roles := upsert (\<lambda>p. fst p = g \<and> role_ID (snd p) = role_ID r) (g, r) (m_roles st)\<rparr>)),
     Store_Role_assign = (\<lambda>st n r. st)
   \<rparr>"

definition mem_empty :: mem where
  "mem_empty = \<lparr>m_self = None, m_channels = [], m_emojis = [], m_guilds = [], m_members = [],
     m_messages = [], m_presences = [], m_roles = [], m_max = 50, m_readonly = False\<rparr>"

definition state0 :: "'st \<Rightarrow> 'st State" where
  "state0 st = \<lparr>store = st, fewMessages = [], calls = []\<rparr>"

text \<open>
  The entities of the examples: guild 1 with the channel 7, the roles 11 and 12, the
  emoji 21, the member alice (user 5, no nickname) and ten messages in channel 7.
\<close>

definition alice :: user where
  "alice = \<lparr>user_ID = 5, Username = ''alice''\<rparr>"

definition guild1 :: guild where
  "guild1 = \<lparr>guild_ID = 1, guild_Name = ''one''\<rparr>"

definition channel7 :: channel where
  "channel7 = \<lparr>channel_ID = 7, channel_GuildID = 1\<rparr>"

definition member5 :: member where
  "member5 = \<lparr>User = alice, Nick = ''''\<rparr>"

definition role11 :: role where
  "role11 = \<lparr>role_ID = 11, role_Name = ''admin''\<rparr>"

definition role12 :: role where
  "role12 = \<lparr>role_ID = 12, role_Name = ''guest''\<rparr>"

definition emoji21 :: emoji where
  "emoji21 = \<lparr>emoji_ID = 21, emoji_Name = ''smile''\<rparr>"

definition msg :: "snowflake \<Rightarrow> message" where
  "msg i = \<lparr>message_ID = i, message_ChannelID = 7, message_GuildID = 0, Author = alice,
     Content = ''hello''\<rparr>"

definition history :: "message list" where
  "history = map msg [70, 71, 72, 73, 74, 75, 76, 77, 78, 79]"

definition unknown :: "'a option \<times> error option" where
  "unknown = (None, Some (Err ''404''))"

definition unknown_all :: "'a list \<times> error option" where
  "unknown_all = ([], Some (Err ''404''))"

text \<open>The remote service of the examples knows these entities and nothing else.\<close>

definition api :: Session where
  "api = \<lparr>
     Session_Me = (\<lambda>h. (Some alice, None)),
     Session_Channel = (\<lambda>h i. if i = 7 then (Some channel7, None) else unknown),
     Session_Channels = (\<lambda>h g. if g = 1 then ([channel7], None) else unknown_all),
     Session_Emojis = (\<lambda>h g. if g = 1 then ([emoji21], None) else unknown_all),
     Session_Guild = (\<lambda>h i. if i = 1 then (Some guild1, None) else unknown),
     Session_Guilds = (\<lambda>h n. (take n [guild1], None)),
     Session_Member = (\<lambda>h g u. if g = 1 \<and> u = 5 then (Some member5, None) else unknown),
     Session_Members = (\<lambda>h g n. if g = 1 then (take n [member5], None) else unknown_all),
     Session_Message = (\<lambda>h c i. if c = 7 \<and> i = 70 then (Some (msg 70), None) else unknown),
     Session_Messages = (\<lambda>h c n. if c = 7 then (take n history, None) else unknown_all),
     Session_Roles = (\<lambda>h g. if g = 1 then ([role11, role12], None) else unknown_all),
     Gateway_RequestGuildMembers = (\<lambda>h g. None)
   \<rparr>"

text \<open>A remote service that is down: every request fails.\<close>

definition down :: "error option" where
  "down = Some (Err ''503'')"

definition api_down :: Session where
  "api_down = \<lparr>
     Session_Me = (\<lambda>h. (None, down)),
     Session_Channel = (\<lambda>h i. (None, down)),
     Session_Channels = (\<lambda>h g. ([], down)),
     Session_Emojis = (\<lambda>h g. ([], down)),
     Session_Guild = (\<lambda>h i. (None, down)),
     Session_Guilds = (\<lambda>h n. ([], down)),
     Session_Member = (\<lambda>h g u. (None, down)),
     Session_Members = (\<lambda>h g n. ([], down)),
     Session_Message = (\<lambda>h c i. (None, down)),
     Session_Messages = (\<lambda>h c n. ([], down)),
     Session_Roles = (\<lambda>h g. ([], down)),
     Gateway_RequestGuildMembers = (\<lambda>h g. down)
   \<rparr>"

text \<open>Stores that refuse every write: an empty one, and one that holds channel 7.\<close>

definition mem_readonly :: mem where
  "mem_readonly = mem_empty\<lparr>m_readonly := True\<rparr>"

definition mem_readonly7 :: mem where
  "mem_readonly7 = mem_empty\<lparr>m_channels := [channel7], m_readonly := True\<rparr>"

text \<open>A remote service that cannot serve channels.\<close>

definition api_no_channel :: Session where
  "api_no_channel = api\<lparr>Session_Channel := (\<lambda>h i. (None, down))\<rparr>"

text \<open>A remote service that cannot serve guilds.\<close>

definition api_no_guild :: Session where
  "api_no_guild = api\<lparr>Session_Guild := (\<lambda>h i. (None, down))\<rparr>"

text \<open>
  A message of user 5 in guild 1 that carries another username than the member record of
  the remote service does.
\<close>

definition msg_renamed :: message where
  "msg_renamed = \<lparr>message_ID = 80, message_ChannelID = 7, message_GuildID = 1,
     Author = \<lparr>user_ID = 5, Username = ''alicia''\<rparr>, Content = ''hi''\<rparr>"

text \<open>An empty store with a cap of three messages for each channel.\<close>

definition mem_cap3 :: mem where
  "mem_cap3 = mem_empty\<lparr>m_max := 3\<rparr>"

text \<open>
  The state after the first \<open>Messages\<close> of channel 7 has fetched the messages and the
  channel, before the messages are written.
\<close>

definition s_fetched :: "mem \<Rightarrow> mem State" where
  "s_fetched st = \<lparr>store = st\<lparr>m_channels := [channel7]\<rparr>, fewMessages = [],
     calls = [CallMessages 7 100, CallChannel 7]\<rparr>"

text \<open>
  A store that holds nothing: every read fails with \<open>ErrStoreNotFound\<close>, every write
  succeeds and changes nothing.
\<close>

definition null_Store :: "'st Store" where
  "null_Store = \<lparr>
     Store_Self = (\<lambda>st. (None, Some ErrStoreNotFound)),
     Store_Channel = (\<lambda>st i. (None, Some ErrStoreNotFound)),
     Store_Channels = (\<lambda>st g. ([], Some ErrStoreNotFound)),
     Store_Emoji = (\<lambda>st g i. (None, Some ErrStoreNotFound)),
     Store_Emojis = (\<lambda>st g. ([], Some ErrStoreNotFound)),
     Store_Guild = (\<lambda>st i. (None, Some ErrStoreNotFound)),
     Store_Guilds = (\<lambda>st. ([], Some ErrStoreNotFound)),
     Store_Member = (\<lambda>st g u. (None, Some ErrStoreNotFound)),
     Store_Members = (\<lambda>st g. ([], Some ErrStoreNotFound)),
     Store_Message = (\<lambda>st c i. (None, Some ErrStoreNotFound)),
     Store_Messages = (\<lambda>st c. ([], Some ErrStoreNotFound)),
     Store_MaxMessages = (\<lambda>st. 0),
     Store_Presence = (\<lambda>st g u. (None, Some ErrStoreNotFound)),
     Store_Presences = (\<lambda>st g. ([], Some ErrStoreNotFound)),
     Store_Role = (\<lambda>st g i. (None, Some ErrStoreNotFound)),
     Store_Roles = (\<lambda>st g. ([], Some ErrStoreNotFound)),
     Store_SelfSet = (\<lambda>st u. (None, st)),
     Store_ChannelSet = (\<lambda>st c. (None, st)),
     Store_EmojiSet = (\<lambda>st g es. (None, st)),
     Store_GuildSet = (\<lambda>st g. (None, st)),
     Store_MemberSet = (\<lambda>st g m. (None, st)),
     Store_MessageSet = (\<lambda>st m. (None, st)),
     Store_RoleSet = (\<lambda>st g r. (None, st)),
     Store_ChannelSet_var = (\<lambda>st n c. (None, st)),
     Store_Channel_assign = (\<lambda>st n c. st),
     Store_GuildSet_var = (\<lambda>st n g. (None, st)),
     Store_Guild_assign = (\<lambda>st n g. st),
     Store_MemberSet_var = (\<lambda>st g n m. (None, st)),
     Store_Member_assign = (\<lambda>st n m. st),
     Store_RoleSet_var = (\<lambda>st g n r. (None, st)),
     Store_Role_assign = (\<lambda>st n r. st)
   \<rparr>"

text \<open>
  A store of channels that keeps the pointers it is handed, as a Go map from the
  identifier to \<open>*discord.Channel\<close> does: under an identifier it holds a pointer to an
  object, or the address of a loop variable. Its state has the content of the loop
  variables too, since it reads a channel through the pointer.
\<close>

datatype channel_ptr = ToObject channel | ToVar nat

record kept =
  k_vars :: "(nat \<times> channel) list"
  k_channels :: "(snowflake \<times> channel_ptr) list"

fun kept_deref :: "kept \<Rightarrow> channel_ptr \<Rightarrow> channel option" where
  "kept_deref st (ToObject c) = Some c"
| "kept_deref st (ToVar n) = map_of (k_vars st) n"

definition kept_Store :: "kept Store" where
  "kept_Store = null_Store\<lparr>
     Store_Channel := (\<lambda>st i.
       found (case map_of (k_channels st) i of None \<Rightarrow> None | Some p \<Rightarrow> kept_deref st p)),
     Store_Channels := (\<lambda>st g.
       found_all (filter (\<lambda>c. channel_GuildID c = g)
                    (List.map_filter (\<lambda>e. kept_deref st (snd e)) (k_channels st)))),
     Store_ChannelSet := (\<lambda>st c. case c of
         None \<Rightarrow> (Some (Err ''nil''), st)
       | Some c \<Rightarrow> (None, st\<lparr>k_channels :=
           upsert (\<lambda>e. fst e = channel_ID c) (channel_ID c, ToObject c) (k_channels st)\<rparr>)),
     Store_ChannelSet_var := (\<lambda>st n c. (None, st\<lparr>k_channels :=
           upsert (\<lambda>e. fst e = channel_ID c) (channel_ID c, ToVar n) (k_channels st)\<rparr>)),
     Store_Channel_assign := (\<lambda>st n c. st\<lparr>k_vars := upsert (\<lambda>e. fst e = n) (n, c) (k_vars st)\<rparr>)
   \<rparr>"

definition kept_empty :: kept where
  "kept_empty = \<lparr>k_vars = [], k_channels = []\<rparr>"

text \<open>Guild 1 with a second channel, and a remote service that knows both channels.\<close>

definition channel8 :: channel where
  "channel8 = \<lparr>channel_ID = 8, channel_GuildID = 1\<rparr>"

definition api_two :: Session where
  "api_two = api\<lparr>Session_Channels := (\<lambda>h g. if g = 1 then ([channel7, channel8], None)
                                             else unknown_all)\<rparr>"

text \<open>The parameters of package \<open>discord\<close> in the examples.\<close>

definition disc :: discord where
  "disc = \<lparr>Valid = (\<lambda>i. i \<noteq> 0), DefaultMemberColor = 0, MemberColor = (\<lambda>g m. 255)\<rparr>"

lemmas fixture_defs =
  mem_Store_def mem_empty_def state0_def found_def found_all_def writing_def
  alice_def guild1_def channel7_def member5_def role11_def role12_def emoji21_def
  msg_def history_def unknown_def unknown_all_def api_def down_def api_down_def disc_def
  mem_readonly_def mem_readonly7_def api_no_channel_def api_no_guild_def msg_renamed_def mem_cap3_def
  null_Store_def kept_Store_def kept_empty_def channel8_def api_two_def

section \<open>The pagination walker\<close>

lemma guild_ID_nth_less:
  assumes "sorted_wrt (<) (map guild_ID gs)" and "i < j" and "j < length gs"
  shows "guild_ID (gs ! i) < guild_ID (gs ! j)"
proof -
  have "map guild_ID gs ! i < map guild_ID gs ! j"
    using assms by (intro sorted_wrt_nth_less) simp_all
  then show ?thesis using assms by simp
qed

lemma filter_after_drop:
  assumes "sorted_wrt (<) (map guild_ID gs)" and "k < length gs"
  shows "filter (\<lambda>g. guild_ID (gs ! k) < guild_ID g) gs = drop (Suc k) gs"
proof -
  have a: "\<not> guild_ID (gs ! k) < guild_ID g" if "g \<in> set (take (Suc k) gs)" for g
  proof -
    from that obtain i where i: "i < Suc k" "g = gs ! i"
      using assms(2) by (auto simp: in_set_conv_nth)
    show ?thesis
    proof (cases "i = k")
      case True then show ?thesis using i by simp
    next
      case False
      then have "i < k" using i by simp
      then have "guild_ID (gs ! i) < guild_ID (gs ! k)"
        using assms by (intro guild_ID_nth_less)
      then show ?thesis using i by simp
    qed
  qed
  have b: "guild_ID (gs ! k) < guild_ID g" if "g \<in> set (drop (Suc k) gs)" for g
  proof -
    from that obtain i where i: "i < length gs - Suc k" "g = gs ! (Suc k + i)"
      by (auto simp: in_set_conv_nth)
    have "guild_ID (gs ! k) < guild_ID (gs ! (Suc k + i))"
      using assms i by (intro guild_ID_nth_less) simp_all
    then show ?thesis using i by simp
  qed
  have "filter (\<lambda>g. guild_ID (gs ! k) < guild_ID g) gs
        = filter (\<lambda>g. guild_ID (gs ! k) < guild_ID g) (take (Suc k) gs)
          @ filter (\<lambda>g. guild_ID (gs ! k) < guild_ID g) (drop (Suc k) gs)"
    by (metis append_take_drop_id filter_append)
  also have "\<dots> = drop (Suc k) gs"
    using a b by (simp add: filter_empty_conv filter_id_conv)
  finally show ?thesis .
qed

lemma source_page_cursor:
  assumes "sorted_wrt (<) (map guild_ID gs)" and "k \<le> length gs"
    and "k = 0 \<and> after = 0 \<or> 2 \<le> k \<and> after = guild_ID (gs ! (k - 1))"
  shows "source_page gs \<lparr>param_Before = 0, param_After = after, param_Limit = n\<rparr> = (take n (drop k gs), None)"
proof (cases "k = 0")
  case True
  then show ?thesis using assms(3) by (simp add: source_page_def)
next
  case False
  then have k: "2 \<le> k" "after = guild_ID (gs ! (k - 1))" using assms(3) by auto
  have "guild_ID (gs ! 0) < guild_ID (gs ! (k - 1))"
    using assms(1,2) k by (intro guild_ID_nth_less) simp_all
  then have nz: "after \<noteq> 0" using k(2)
    by (metis word_not_simps(1))
  have "filter (\<lambda>g. guild_ID (gs ! (k - 1)) < guild_ID g) gs = drop (Suc (k - 1)) gs"
    using filter_after_drop[OF assms(1), of "k - 1"] assms(2) k by simp
  then show ?thesis using nz k by (simp add: source_page_def)
qed


lemma paged_single: "param_Before p = 0 \<Longrightarrow> 1 \<le> param_Limit p \<Longrightarrow> param_Limit p \<le> 100 \<Longrightarrow> paged gs [p]"
  by (simp add: paged_def)

lemma paged_Cons:
  assumes "param_Before p = 0" "1 \<le> param_Limit p" "param_Limit p \<le> 100" "paged gs reqs" "reqs \<noteq> []"
    "length (fst (source_page gs p)) = param_Limit p"
    "param_After (hd reqs) = guild_ID (last (fst (source_page gs p)))"
  shows "paged gs (p # reqs)"
  unfolding paged_def
proof (intro conjI ballI allI impI)
  fix q assume "q \<in> set (p # reqs)"
  then show "param_Before q = 0" "1 \<le> param_Limit q" "param_Limit q \<le> 100"
    using assms(1-4) by (auto simp: paged_def)
next
  fix i assume i: "Suc i < length (p # reqs)"
  show "length (fst (source_page gs ((p # reqs) ! i))) = param_Limit ((p # reqs) ! i)"
    using i assms(4,6) by (cases i) (auto simp: paged_def)
  show "param_After ((p # reqs) ! Suc i) = guild_ID (last (fst (source_page gs ((p # reqs) ! i))))"
    using i assms(4,5,7) by (cases i) (auto simp: paged_def hd_conv_nth)
qed

lemma Guilds_loop_0: "Guilds_loop rt 0 after guilds sent = ((guilds, None), sent)"
  by (subst Guilds_loop.simps) simp

lemma Guilds_loop_step:
  assumes "0 < m" and "GuildsAfter rt after (min 100 m) sent = ((g, None), sent')"
  shows "Guilds_loop rt m after guilds sent =
     (if length g < 100 then ((guilds @ g, None), sent')
      else Guilds_loop rt (m - min 100 m) (guild_ID (g ! 99)) (guilds @ g) sent')"
proof -
  have "(if m > 0 \<and> hardLimit > m then m else hardLimit) = min 100 m"
    using assms(1) by (simp add: hardLimit_def min_def)
  then have "Guilds_loop rt m after guilds sent =
     (case GuildsAfter rt after (min 100 m) sent of
        ((g, Some err), sent') \<Rightarrow> ((guilds, Some err), sent')
      | ((g, None), sent') \<Rightarrow>
          (if length g < hardLimit then ((guilds @ g, None), sent')
           else Guilds_loop rt (m - min 100 m) (guild_ID (g ! (hardLimit - 1))) (guilds @ g) sent'))"
    using assms(1) by (subst Guilds_loop.simps) (simp only: Let_def if_True)
  then show ?thesis by (simp add: assms(2) hardLimit_def)
qed

lemma Guilds_loop_paged:
  assumes srt: "sorted_wrt (<) (map guild_ID gs)"
  shows "k \<le> length gs \<Longrightarrow> k = 0 \<and> after = 0 \<or> 2 \<le> k \<and> after = guild_ID (gs ! (k - 1)) \<Longrightarrow>
     \<exists>reqs. Guilds_loop (source_page gs) m after (take k gs) sent
               = ((take (k + m) gs, None), sent @ reqs)
       \<and> paged gs reqs \<and> (0 < m \<longrightarrow> reqs \<noteq> [] \<and> param_After (hd reqs) = after)"
proof (induction m arbitrary: k after sent rule: less_induct)
  case (less m)
  show ?case
  proof (cases "m = 0")
    case True
    have "paged gs []" by (simp add: paged_def)
    then show ?thesis using True by (intro exI[of _ "[]"]) (simp add: Guilds_loop_0)
  next
    case False
    define fetch where "fetch = min 100 m"
    define p where "p = \<lparr>param_Before = 0, param_After = after, param_Limit = fetch\<rparr>"
    define g where "g = take fetch (drop k gs)"
    have fetch: "1 \<le> fetch" "fetch \<le> 100" "fetch \<le> m"
      using False by (auto simp: fetch_def)
    have sp: "source_page gs p = (g, None)"
      unfolding p_def g_def by (rule source_page_cursor[OF srt less.prems])
    have ga: "GuildsAfter (source_page gs) after fetch sent = ((g, None), sent @ [p])"
    proof -
      have "GuildsAfter (source_page gs) after fetch sent = (source_page gs p, sent @ [p])"
        using fetch by (simp add: GuildsAfter_def GuildsRange_def p_def Let_def)
      then show ?thesis by (simp add: sp)
    qed
    have p: "param_Before p = 0" "1 \<le> param_Limit p" "param_Limit p \<le> 100" "param_After p = after"
      using fetch by (simp_all add: p_def)
    have step: "Guilds_loop (source_page gs) m after (take k gs) sent =
       (if length g < 100 then ((take k gs @ g, None), sent @ [p])
        else Guilds_loop (source_page gs) (m - fetch) (guild_ID (g ! 99)) (take k gs @ g) (sent @ [p]))"
      using False ga unfolding fetch_def by (intro Guilds_loop_step) simp_all
    show ?thesis
    proof (cases "length g < 100")
      case True
      have "take k gs @ g = take (k + m) gs"
      proof (cases "fetch = m")
        case True
        then show ?thesis by (simp add: g_def take_add)
      next
        case ne: False
        then have "fetch = 100" "100 \<le> m" using fetch by (auto simp: fetch_def)
        with True have "length gs < k + 100" "g = drop k gs"
          by (auto simp: g_def)
        with \<open>100 \<le> m\<close> show ?thesis by simp
      qed
      then have "Guilds_loop (source_page gs) m after (take k gs) sent
                 = ((take (k + m) gs, None), sent @ [p])"
        using True step by simp
      moreover have "paged gs [p]" using p by (intro paged_single)
      ultimately show ?thesis using p(4) by (intro exI[of _ "[p]"]) simp
    next
      case full: False
      then have f100: "fetch = 100" and len: "length g = 100" and k100: "k + 100 \<le> length gs"
        using fetch by (auto simp: g_def)
      have g99: "g ! 99 = gs ! (k + 99)"
        using k100 by (simp add: g_def f100)
      have "g \<noteq> []" using len by auto
      then have "last g = g ! (length g - 1)" by (rule last_conv_nth)
      then have lastg: "last g = gs ! (k + 99)"
        using len g99 by simp
      have tk: "take k gs @ g = take (k + 100) gs"
        by (simp add: g_def f100 take_add)
      have step': "Guilds_loop (source_page gs) m after (take k gs) sent =
         Guilds_loop (source_page gs) (m - fetch) (guild_ID (gs ! (k + 99))) (take (k + 100) gs) (sent @ [p])"
        using step full by (simp add: g99 tk)
      have "m - fetch < m" using fetch False by simp
      moreover have "k + 100 \<le> length gs" by (rule k100)
      moreover have "k + 100 = 0 \<and> guild_ID (gs ! (k + 99)) = 0 \<or>
          2 \<le> k + 100 \<and> guild_ID (gs ! (k + 99)) = guild_ID (gs ! (k + 100 - 1))"
        by (simp add: add.commute)
      ultimately have "\<exists>reqs. Guilds_loop (source_page gs) (m - fetch) (guild_ID (gs ! (k + 99)))
               (take (k + 100) gs) (sent @ [p])
             = ((take (k + 100 + (m - fetch)) gs, None), (sent @ [p]) @ reqs)
         \<and> paged gs reqs
         \<and> (0 < m - fetch \<longrightarrow> reqs \<noteq> [] \<and> param_After (hd reqs) = guild_ID (gs ! (k + 99)))"
        by (rule less.IH)
      then obtain reqs where ex: "Guilds_loop (source_page gs) (m - fetch) (guild_ID (gs ! (k + 99)))
               (take (k + 100) gs) (sent @ [p])
             = ((take (k + 100 + (m - fetch)) gs, None), (sent @ [p]) @ reqs)
         \<and> paged gs reqs
         \<and> (0 < m - fetch \<longrightarrow> reqs \<noteq> [] \<and> param_After (hd reqs) = guild_ID (gs ! (k + 99)))" ..
      then have reqs:
        "Guilds_loop (source_page gs) (m - fetch) (guild_ID (gs ! (k + 99))) (take (k + 100) gs) (sent @ [p])
           = ((take (k + 100 + (m - fetch)) gs, None), (sent @ [p]) @ reqs)"
        "paged gs reqs" "0 < m - fetch \<longrightarrow> reqs \<noteq> [] \<and> param_After (hd reqs) = guild_ID (gs ! (k + 99))"
        by (rule conjunct1, rule conjunct2[THEN conjunct1], rule conjunct2[THEN conjunct2])
      have "k + 100 + (m - fetch) = k + m" using fetch f100 by simp
      then have "take (k + 100 + (m - fetch)) gs = take (k + m) gs" by (rule arg_cong)
      then have run: "Guilds_loop (source_page gs) m after (take k gs) sent
                 = ((take (k + m) gs, None), sent @ p # reqs)"
        using step' reqs(1) by simp
      have lp: "param_Limit p = 100" by (simp add: p_def f100)
      have "paged gs (p # reqs)"
      proof (cases "reqs = []")
        case True
        then show ?thesis using p paged_single[of p gs] by simp
      next
        case ne: False
        have "0 < m - fetch"
        proof (rule ccontr)
          assume "\<not> 0 < m - fetch"
          then have z: "m - fetch = 0" by simp
          have "Guilds_loop (source_page gs) (m - fetch) (guild_ID (gs ! (k + 99)))
                  (take (k + 100) gs) (sent @ [p]) = ((take (k + 100) gs, None), sent @ [p])"
            unfolding z by (rule Guilds_loop_0)
          with reqs(1) have "(sent @ [p]) @ reqs = sent @ [p]" by simp
          then show False using ne by simp
        qed
        then have "param_After (hd reqs) = guild_ID (gs ! (k + 99))" using reqs(3) by simp
        then show ?thesis
          using p(1-3) reqs(2) ne len lp lastg
          by (intro paged_Cons) (simp_all add: sp)
      qed
      then show ?thesis using run p(4) by (intro exI[of _ "p # reqs"]) simp
    qed
  qed
qed

lemma guilds_upto_sorted:
  assumes "n < 2 ^ 64"
  shows "sorted_wrt (<) (map guild_ID (guilds_upto n))"
proof -
  have less: "(of_nat (Suc i) :: snowflake) < of_nat (Suc j)" if "i < j" "j < n" for i j
  proof -
    have "Suc i < 2 ^ 64" "Suc j < 2 ^ 64" using that assms by simp_all
    then have "unat (of_nat (Suc i) :: snowflake) = Suc i" "unat (of_nat (Suc j) :: snowflake) = Suc j"
      by (simp_all only: unat_of_nat len_of_numeral_defs, simp_all)
    then show ?thesis using that(1) by (simp add: word_less_nat_alt)
  qed
  have "sorted_wrt (\<lambda>i j. (of_nat (Suc i) :: snowflake) < of_nat (Suc j)) [0..<n]"
  proof (rule sorted_wrt_mono_rel[of _ "(<)"])
    show "sorted_wrt (<) [0..<n]" by simp
  next
    fix i j
    assume a: "i \<in> set [0..<n]" "j \<in> set [0..<n]" "i < j"
    have "j < n" using a(2) by simp
    with a(3) show "(of_nat (Suc i) :: snowflake) < of_nat (Suc j)" by (rule less)
  qed
  then show ?thesis
    by (simp add: guilds_upto_def sorted_wrt_map comp_def)
qed

section \<open>Properties of the ranged fetch\<close>

text \<open>
  C8. Whatever limit \<open>GuildsRange\<close> is called with, the request it sends is the one
  appended to the client's requests, its bounds are the arguments, and its limit lies
  between 1 and 100; a limit above 100 is sent as 100 (and 0 as 100 too).
\<close>

theorem GuildsRange_limit_clamped:
  "\<exists>p. GuildsRange rt before after limit sent = (rt p, sent @ [p])
     \<and> param_Before p = before \<and> param_After p = after
     \<and> 1 \<le> param_Limit p \<and> param_Limit p \<le> 100
     \<and> param_Limit p = (if limit = 0 \<or> 100 < limit then 100 else limit)"
  by (simp add: GuildsRange_def Let_def)

text \<open>
  C2. Against a service holding the guilds \<open>gs\<close> in strictly ascending identifier
  order, \<open>Client.Guilds\<close> with maximum \<open>M\<close> returns the first \<open>min M (length gs)\<close>
  guilds without an error. Every request asks for 1 to 100 guilds, the first one has no
  cursor, every request but the last got a full page (so the first short page ends the
  enumeration), and the cursor of every later request is the identifier of the last guild
  of the page before.
\<close>

theorem Guilds_pagination:
  assumes "sorted_wrt (<) (map guild_ID gs)"
  shows "\<exists>reqs. Guilds (source_page gs) M sent = ((take M gs, None), sent @ reqs)
     \<and> length (take M gs) = min M (length gs)
     \<and> (\<forall>p \<in> set reqs. 1 \<le> param_Limit p \<and> param_Limit p \<le> 100)
     \<and> (0 < M \<longrightarrow> reqs \<noteq> [] \<and> param_After (hd reqs) = 0)
     \<and> (\<forall>i. Suc i < length reqs \<longrightarrow>
           length (fst (source_page gs (reqs ! i))) = param_Limit (reqs ! i) \<and>
           param_After (reqs ! Suc i) = guild_ID (last (fst (source_page gs (reqs ! i)))))"
proof -
  have "\<exists>reqs. Guilds_loop (source_page gs) M 0 (take 0 gs) sent
               = ((take (0 + M) gs, None), sent @ reqs)
       \<and> paged gs reqs \<and> (0 < M \<longrightarrow> reqs \<noteq> [] \<and> param_After (hd reqs) = 0)"
    using assms by (intro Guilds_loop_paged) simp_all
  then obtain reqs where reqs:
    "Guilds_loop (source_page gs) M 0 [] sent = ((take M gs, None), sent @ reqs)"
    "paged gs reqs" "0 < M \<longrightarrow> reqs \<noteq> [] \<and> param_After (hd reqs) = 0"
    by auto
  show ?thesis
  proof (intro exI[of _ reqs] conjI)
    show "Guilds (source_page gs) M sent = ((take M gs, None), sent @ reqs)"
      using reqs(1) by (simp add: Guilds_def)
    show "length (take M gs) = min M (length gs)"
      by (simp add: min.commute)
    show "\<forall>p \<in> set reqs. 1 \<le> param_Limit p \<and> param_Limit p \<le> 100"
      using reqs(2) by (simp add: paged_def)
    show "0 < M \<longrightarrow> reqs \<noteq> [] \<and> param_After (hd reqs) = 0"
      by (rule reqs(3))
    show "\<forall>i. Suc i < length reqs \<longrightarrow>
           length (fst (source_page gs (reqs ! i))) = param_Limit (reqs ! i) \<and>
           param_After (reqs ! Suc i) = guild_ID (last (fst (source_page gs (reqs ! i))))"
      using reqs(2) by (simp add: paged_def)
  qed
qed

text \<open>
  The property at 150 guilds and a maximum of 120: two requests, the second one for the
  20 guilds after the identifier 100.
\<close>

theorem Guilds_pagination_witness:
  "sorted_wrt (<) (map guild_ID (guilds_upto 150))
   \<and> Guilds (source_page (guilds_upto 150)) 120 []
     = ((take 120 (guilds_upto 150), None),
        [\<lparr>param_Before = 0, param_After = 0, param_Limit = 100\<rparr>,
         \<lparr>param_Before = 0, param_After = 100, param_Limit = 20\<rparr>])"
proof -
  have s: "sorted_wrt (<) (map guild_ID (guilds_upto 150))"
    by (rule guilds_upto_sorted) simp
  from Guilds_pagination[OF s, of 120 "[]"] obtain reqs where
    r: "Guilds (source_page (guilds_upto 150)) 120 [] = ((take 120 (guilds_upto 150), None), [] @ reqs)"
    by blast
  have "snd (Guilds (source_page (guilds_upto 150)) 120 [])
     = [\<lparr>param_Before = 0, param_After = 0, param_Limit = 100\<rparr>,
        \<lparr>param_Before = 0, param_After = 100, param_Limit = 20\<rparr>]"
    by code_simp
  with r s show ?thesis by simp
qed

section \<open>Auxiliary facts about the accessors\<close>

lemma State_Channel_fewMessages:
  "fewMessages (snd (State_Channel S A c s)) = fewMessages s"
  by (simp add: State_Channel_def Let_def split: prod.splits)

lemma State_Channel_calls:
  "calls (snd (State_Channel S A c s)) =
     calls s @ (if snd (Store_Channel S (store s) c) = None then [] else [CallChannel c])"
  by (simp add: State_Channel_def Let_def split: prod.splits)

lemma State_Channel_hit:
  "snd (Store_Channel S (store s) c) = None \<Longrightarrow>
   State_Channel S A c s = ((fst (Store_Channel S (store s) c), None), s)"
  by (auto simp: State_Channel_def Let_def split: prod.splits)

lemma stamp_set_range_set:
  "stamp_set S g ms st =
     (let r = range_set (Store_MessageSet S) (map (stamp g) ms) st
      in ((if fst r = None then map (stamp g) ms else [], fst r), snd r))"
  by (induction ms arbitrary: st) (auto simp: Let_def stamp_def split: prod.splits)

lemma Role_range_store:
  "snd (Role_range S g i n rs p r st)
     = snd (range_var_set (\<lambda>st. Store_RoleSet_var S st g) (Store_Role_assign S) n rs st)"
  by (induction rs arbitrary: p r st) (auto simp: Let_def split: prod.splits)

lemma Role_range_error:
  "snd (fst (Role_range S g i n rs p r st))
     = fst (range_var_set (\<lambda>st. Store_RoleSet_var S st g) (Store_Role_assign S) n rs st)"
  by (induction rs arbitrary: p r st) (auto simp: Let_def split: prod.splits)

lemma Role_range_absent:
  "\<forall>x \<in> set rs. role_ID x \<noteq> i \<Longrightarrow>
   fst (fst (Role_range S g i n rs NilRole r st)) = None"
  by (induction rs arbitrary: r st) (auto simp: Let_def split: prod.splits)

lemma Role_range_pointer:
  "fst (range_var_set (\<lambda>st. Store_RoleSet_var S st g) (Store_Role_assign S) n rs st) = None
   \<Longrightarrow>
   fst (fst (Role_range S g i n rs p r st)) =
     (if rs = [] then deref p r
      else if p = AddrOf_r \<or> (\<exists>x \<in> set rs. role_ID x = i) then Some (last rs) else None)"
proof (induction rs arbitrary: p r st)
  case Nil
  then show ?case by simp
next
  case (Cons x rs)
  then show ?case
    by (cases p) (auto simp: Let_def split: prod.splits if_splits)
qed

section \<open>Presence\<close>

text \<open>
  C6. \<open>Presence\<close> and \<open>Presences\<close> return the pair that the store returns, value
  and error as they are, whatever the store answers; the state is left as it was, so no
  request goes out through the session.
\<close>

theorem Presence_verbatim:
  "State_Presence S A guildID userID s = (Store_Presence S (store s) guildID userID, s)
   \<and> State_Presences S A guildID s = (Store_Presences S (store s) guildID, s)
   \<and> fetches (snd (State_Presence S A guildID userID s)) = fetches s
   \<and> fetches (snd (State_Presences S A guildID s)) = fetches s"
  by (simp add: State_Presence_def State_Presences_def)

section \<open>A fetch that fails\<close>

lemma Self_fetch_failure:
  "snd (Store_Self S (store s)) \<noteq> None \<and> snd (Session_Me A (calls s)) = Some e \<longrightarrow>
     State_Self S A s = ((None, Some e), s\<lparr>calls := calls s @ [CallMe]\<rparr>)"
  by (auto simp: State_Self_def Let_def split: prod.splits)

lemma Channel_fetch_failure:
  "snd (Store_Channel S (store s) c) \<noteq> None \<and> snd (Session_Channel A (calls s) c) = Some e \<longrightarrow>
     State_Channel S A c s = ((None, Some e), s\<lparr>calls := calls s @ [CallChannel c]\<rparr>)"
  by (auto simp: State_Channel_def Let_def split: prod.splits)

lemma Channels_fetch_failure:
  "snd (Store_Channels S (store s) g) \<noteq> None \<and> snd (Session_Channels A (calls s) g) = Some e \<longrightarrow>
     State_Channels S A g s = (([], Some e), s\<lparr>calls := calls s @ [CallChannels g]\<rparr>)"
  by (auto simp: State_Channels_def Let_def split: prod.splits)

lemma Emoji_fetch_failure:
  "snd (Store_Emoji S (store s) g i) \<noteq> None \<and> snd (Session_Emojis A (calls s) g) = Some e \<longrightarrow>
     State_Emoji S A g i s = ((None, Some e), s\<lparr>calls := calls s @ [CallEmojis g]\<rparr>)"
  by (auto simp: State_Emoji_def Let_def split: prod.splits)

lemma Emojis_fetch_failure:
  "snd (Store_Emojis S (store s) g) \<noteq> None \<and> snd (Session_Emojis A (calls s) g) = Some e \<longrightarrow>
     State_Emojis S A g s = (([], Some e), s\<lparr>calls := calls s @ [CallEmojis g]\<rparr>)"
  by (auto simp: State_Emojis_def Let_def split: prod.splits)

lemma Guild_fetch_failure:
  "snd (Store_Guild S (store s) g) \<noteq> None \<and> snd (Session_Guild A (calls s) g) = Some e \<longrightarrow>
     State_Guild S A g s = ((None, Some e), s\<lparr>calls := calls s @ [CallGuild g]\<rparr>)"
  by (auto simp: State_Guild_def Let_def split: prod.splits)

lemma Guilds_fetch_failure:
  "snd (Store_Guilds S (store s)) \<noteq> None \<and> snd (Session_Guilds A (calls s) MaxFetchGuilds) = Some e \<longrightarrow>
     State_Guilds S A s = (([], Some e), s\<lparr>calls := calls s @ [CallGuilds MaxFetchGuilds]\<rparr>)"
  by (auto simp: State_Guilds_def Let_def split: prod.splits)

lemma Member_fetch_failure:
  "snd (Store_Member S (store s) g u) \<noteq> None \<and> snd (Session_Member A (calls s) g u) = Some e \<longrightarrow>
     State_Member S A g u s = ((None, Some e), s\<lparr>calls := calls s @ [CallMember g u]\<rparr>)"
  by (auto simp: State_Member_def Let_def split: prod.splits)

lemma Members_fetch_failure:
  "snd (Store_Members S (store s) g) \<noteq> None \<and>
   snd (Session_Members A (calls s) g MaxFetchMembers) = Some e \<longrightarrow>
     State_Members S A g s = (([], Some e), s\<lparr>calls := calls s @ [CallMembers g MaxFetchMembers]\<rparr>)"
  by (auto simp: State_Members_def Let_def split: prod.splits)

lemma Message_fetch_failure:
  "snd (Store_Message S (store s) c i) \<noteq> None \<and> snd (Session_Message A (calls s) c i) = Some e \<longrightarrow>
     State_Message S A c i s = (Return (None, Some e), s\<lparr>calls := calls s @ [CallMessage c i]\<rparr>)"
  by (auto simp: State_Message_def Let_def split: prod.splits)

lemma Messages_fetch_failure:
  "\<not> Messages_warm S c s \<and> snd (Session_Messages A (calls s) c 100) = Some e \<longrightarrow>
     State_Messages S A c s = (Return ([], Some e), s\<lparr>calls := calls s @ [CallMessages c 100]\<rparr>)"
  by (auto simp: State_Messages_def Messages_fetch_def Messages_warm_def Let_def split: prod.splits)

lemma Role_fetch_failure:
  "snd (Store_Role S (store s) g i) \<noteq> None \<and> snd (Session_Roles A (calls s) g) = Some e \<longrightarrow>
     State_Role S A g i s = ((None, Some e), s\<lparr>calls := calls s @ [CallRoles g]\<rparr>)"
  by (auto simp: State_Role_def Let_def split: prod.splits)

lemma Roles_fetch_failure:
  "snd (Store_Roles S (store s) g) \<noteq> None \<and> snd (Session_Roles A (calls s) g) = Some e \<longrightarrow>
     State_Roles S A g s = (([], Some e), s\<lparr>calls := calls s @ [CallRoles g]\<rparr>)"
  by (auto simp: State_Roles_def Let_def split: prod.splits)

text \<open>
  C5. For each of the thirteen accessors with a pull fallback: when the storage read
  fails and the accessor's fetch fails with the error \<open>e\<close>, the accessor returns nil
  with \<open>e\<close>, and the state after it is the state before it with that one request
  added: the storage and \<open>fewMessages\<close> are untouched. (\<open>Messages\<close> fetches
  whenever it does not answer from the storage.)
\<close>

theorem fetch_failure_atomic:
  "(snd (Store_Self S (store s)) \<noteq> None \<and> snd (Session_Me A (calls s)) = Some e \<longrightarrow>
      State_Self S A s = ((None, Some e), s\<lparr>calls := calls s @ [CallMe]\<rparr>))
   \<and> (snd (Store_Channel S (store s) c) \<noteq> None \<and> snd (Session_Channel A (calls s) c) = Some e \<longrightarrow>
      State_Channel S A c s = ((None, Some e), s\<lparr>calls := calls s @ [CallChannel c]\<rparr>))
   \<and> (snd (Store_Channels S (store s) g) \<noteq> None \<and> snd (Session_Channels A (calls s) g) = Some e \<longrightarrow>
      State_Channels S A g s = (([], Some e), s\<lparr>calls := calls s @ [CallChannels g]\<rparr>))
   \<and> (snd (Store_Emoji S (store s) g i) \<noteq> None \<and> snd (Session_Emojis A (calls s) g) = Some e \<longrightarrow>
      State_Emoji S A g i s = ((None, Some e), s\<lparr>calls := calls s @ [CallEmojis g]\<rparr>))
   \<and> (snd (Store_Emojis S (store s) g) \<noteq> None \<and> snd (Session_Emojis A (calls s) g) = Some e \<longrightarrow>
      State_Emojis S A g s = (([], Some e), s\<lparr>calls := calls s @ [CallEmojis g]\<rparr>))
   \<and> (snd (Store_Guild S (store s) g) \<noteq> None \<and> snd (Session_Guild A (calls s) g) = Some e \<longrightarrow>
      State_Guild S A g s = ((None, Some e), s\<lparr>calls := calls s @ [CallGuild g]\<rparr>))
   \<and> (snd (Store_Guilds S (store s)) \<noteq> None \<and>
       snd (Session_Guilds A (calls s) MaxFetchGuilds) = Some e \<longrightarrow>
      State_Guilds S A s = (([], Some e), s\<lparr>calls := calls s @ [CallGuilds MaxFetchGuilds]\<rparr>))
   \<and> (snd (Store_Member S (store s) g u) \<noteq> None \<and> snd (Session_Member A (calls s) g u) = Some e \<longrightarrow>
      State_Member S A g u s = ((None, Some e), s\<lparr>calls := calls s @ [CallMember g u]\<rparr>))
   \<and> (snd (Store_Members S (store s) g) \<noteq> None \<and>
       snd (Session_Members A (calls s) g MaxFetchMembers) = Some e \<longrightarrow>
      State_Members S A g s
        = (([], Some e), s\<lparr>calls := calls s @ [CallMembers g MaxFetchMembers]\<rparr>))
   \<and> (snd (Store_Message S (store s) c i) \<noteq> None \<and>
       snd (Session_Message A (calls s) c i) = Some e \<longrightarrow>
      State_Message S A c i s
        = (Return (None, Some e), s\<lparr>calls := calls s @ [CallMessage c i]\<rparr>))
   \<and> (\<not> Messages_warm S c s \<and> snd (Session_Messages A (calls s) c 100) = Some e \<longrightarrow>
      State_Messages S A c s
        = (Return ([], Some e), s\<lparr>calls := calls s @ [CallMessages c 100]\<rparr>))
   \<and> (snd (Store_Role S (store s) g i) \<noteq> None \<and> snd (Session_Roles A (calls s) g) = Some e \<longrightarrow>
      State_Role S A g i s = ((None, Some e), s\<lparr>calls := calls s @ [CallRoles g]\<rparr>))
   \<and> (snd (Store_Roles S (store s) g) \<noteq> None \<and> snd (Session_Roles A (calls s) g) = Some e \<longrightarrow>
      State_Roles S A g s = (([], Some e), s\<lparr>calls := calls s @ [CallRoles g]\<rparr>))"
  by (intro conjI Self_fetch_failure Channel_fetch_failure Channels_fetch_failure
      Emoji_fetch_failure Emojis_fetch_failure Guild_fetch_failure Guilds_fetch_failure
      Member_fetch_failure Members_fetch_failure Message_fetch_failure Messages_fetch_failure
      Role_fetch_failure Roles_fetch_failure)

text \<open>The property on the empty store, with the remote service down.\<close>

theorem fetch_failure_atomic_witness:
  "State_Self mem_Store api_down (state0 mem_empty)
     = ((None, down), \<lparr>store = mem_empty, fewMessages = [], calls = [CallMe]\<rparr>)
   \<and> State_Channel mem_Store api_down 7 (state0 mem_empty)
     = ((None, down), \<lparr>store = mem_empty, fewMessages = [], calls = [CallChannel 7]\<rparr>)
   \<and> State_Channels mem_Store api_down 1 (state0 mem_empty)
     = (([], down), \<lparr>store = mem_empty, fewMessages = [], calls = [CallChannels 1]\<rparr>)
   \<and> State_Emoji mem_Store api_down 1 21 (state0 mem_empty)
     = ((None, down), \<lparr>store = mem_empty, fewMessages = [], calls = [CallEmojis 1]\<rparr>)
   \<and> State_Emojis mem_Store api_down 1 (state0 mem_empty)
     = (([], down), \<lparr>store = mem_empty, fewMessages = [], calls = [CallEmojis 1]\<rparr>)
   \<and> State_Guild mem_Store api_down 1 (state0 mem_empty)
     = ((None, down), \<lparr>store = mem_empty, fewMessages = [], calls = [CallGuild 1]\<rparr>)
   \<and> State_Guilds mem_Store api_down (state0 mem_empty)
     = (([], down), \<lparr>store = mem_empty, fewMessages = [], calls = [CallGuilds 100]\<rparr>)
   \<and> State_Member mem_Store api_down 1 5 (state0 mem_empty)
     = ((None, down), \<lparr>store = mem_empty, fewMessages = [], calls = [CallMember 1 5]\<rparr>)
   \<and> State_Members mem_Store api_down 1 (state0 mem_empty)
     = (([], down), \<lparr>store = mem_empty, fewMessages = [], calls = [CallMembers 1 1000]\<rparr>)
   \<and> State_Message mem_Store api_down 7 70 (state0 mem_empty)
     = (Return (None, down), \<lparr>store = mem_empty, fewMessages = [], calls = [CallMessage 7 70]\<rparr>)
   \<and> State_Messages mem_Store api_down 7 (state0 mem_empty)
     = (Return ([], down), \<lparr>store = mem_empty, fewMessages = [], calls = [CallMessages 7 100]\<rparr>)
   \<and> State_Role mem_Store api_down 1 11 (state0 mem_empty)
     = ((None, down), \<lparr>store = mem_empty, fewMessages = [], calls = [CallRoles 1]\<rparr>)
   \<and> State_Roles mem_Store api_down 1 (state0 mem_empty)
     = (([], down), \<lparr>store = mem_empty, fewMessages = [], calls = [CallRoles 1]\<rparr>)"
  using fetch_failure_atomic[where S = mem_Store and A = api_down and s = "state0 mem_empty"
      and e = "Err ''503''" and c = 7 and g = 1 and i = 21 and u = 5]
    fetch_failure_atomic[where S = mem_Store and A = api_down and s = "state0 mem_empty"
      and e = "Err ''503''" and c = 7 and g = 1 and i = 70 and u = 5]
    fetch_failure_atomic[where S = mem_Store and A = api_down and s = "state0 mem_empty"
      and e = "Err ''503''" and c = 7 and g = 1 and i = 11 and u = 5]
  by (simp add: mem_Store_def api_down_def down_def state0_def found_def found_all_def
      Messages_warm_def MaxFetchGuilds_def MaxFetchMembers_def mem_empty_def)

section \<open>A write-back that fails\<close>

lemma Self_write_failure:
  "snd (Store_Self S (store s)) \<noteq> None \<and> Session_Me A (calls s) = (Some v, None) \<and>
   fst (Store_SelfSet S (store s) (Some v)) = Some e \<longrightarrow>
     fst (State_Self S A s) = (Some v, Some e)"
  by (auto simp: State_Self_def Let_def split: prod.splits)

lemma Channel_write_failure:
  "snd (Store_Channel S (store s) c) \<noteq> None \<and> Session_Channel A (calls s) c = (Some ch, None) \<and>
   fst (Store_ChannelSet S (store s) (Some ch)) = Some e \<longrightarrow>
     fst (State_Channel S A c s) = (Some ch, Some e)"
  by (auto simp: State_Channel_def Let_def split: prod.splits)

lemma Guild_write_failure:
  "snd (Store_Guild S (store s) g) \<noteq> None \<and> Session_Guild A (calls s) g = (Some gd, None) \<and>
   fst (Store_GuildSet S (store s) (Some gd)) = Some e \<longrightarrow>
     fst (State_Guild S A g s) = (Some gd, Some e)"
  by (auto simp: State_Guild_def Let_def split: prod.splits)

lemma Member_write_failure:
  "snd (Store_Member S (store s) g u) \<noteq> None \<and> Session_Member A (calls s) g u = (Some mb, None) \<and>
   fst (Store_MemberSet S (store s) g (Some mb)) = Some e \<longrightarrow>
     fst (State_Member S A g u s) = (Some mb, Some e)"
  by (auto simp: State_Member_def Let_def split: prod.splits)

lemma Emojis_write_failure:
  "snd (Store_Emojis S (store s) g) \<noteq> None \<and> Session_Emojis A (calls s) g = (es, None) \<and>
   fst (Store_EmojiSet S (store s) g es) = Some e \<longrightarrow>
     fst (State_Emojis S A g s) = (es, Some e)"
  by (auto simp: State_Emojis_def Let_def split: prod.splits)

lemma Message_write_failure_stamped:
  "snd (Store_Message S (store s) c i) \<noteq> None \<and> Session_Message A (calls s) c i = (Some m, None) \<and>
   State_Channel S A c (s\<lparr>calls := calls s @ [CallMessage c i]\<rparr>) = ((Some ch, None), s') \<and>
   fst (Store_MessageSet S (store s') (Some (stamp (channel_GuildID ch) m))) = Some e \<longrightarrow>
     fst (State_Message S A c i s) = Return (Some (stamp (channel_GuildID ch) m), Some e)"
  by (auto simp: State_Message_def Let_def stamp_def split: prod.splits)

lemma Message_write_failure_unstamped:
  "snd (Store_Message S (store s) c i) \<noteq> None \<and> Session_Message A (calls s) c i = (Some m, None) \<and>
   State_Channel S A c (s\<lparr>calls := calls s @ [CallMessage c i]\<rparr>) = ((cho, Some ce), s') \<and>
   fst (Store_MessageSet S (store s') (Some m)) = Some e \<longrightarrow>
     fst (State_Message S A c i s) = Return (Some m, Some e)"
  by (auto simp: State_Message_def Let_def split: prod.splits)

text \<open>
  C9. When the storage read fails, the fetch succeeds with a value and the write-back of
  that value fails with the error \<open>e\<close>, then \<open>Self\<close>, \<open>Channel\<close>, \<open>Guild\<close>,
  \<open>Member\<close>, \<open>Message\<close> and \<open>Emojis\<close> return the fetched value together with
  \<open>e\<close>. The value of \<open>Message\<close> is the fetched message, with the guild identifier
  of the channel stamped on it when the channel lookup succeeded.
\<close>

theorem write_back_failure:
  "(snd (Store_Self S (store s)) \<noteq> None \<and> Session_Me A (calls s) = (Some v, None) \<and>
    fst (Store_SelfSet S (store s) (Some v)) = Some e \<longrightarrow>
      fst (State_Self S A s) = (Some v, Some e))
   \<and> (snd (Store_Channel S (store s) c) \<noteq> None \<and>
       Session_Channel A (calls s) c = (Some ch, None) \<and>
       fst (Store_ChannelSet S (store s) (Some ch)) = Some e \<longrightarrow>
      fst (State_Channel S A c s) = (Some ch, Some e))
   \<and> (snd (Store_Guild S (store s) g) \<noteq> None \<and> Session_Guild A (calls s) g = (Some gd, None) \<and>
       fst (Store_GuildSet S (store s) (Some gd)) = Some e \<longrightarrow>
      fst (State_Guild S A g s) = (Some gd, Some e))
   \<and> (snd (Store_Member S (store s) g u) \<noteq> None \<and>
       Session_Member A (calls s) g u = (Some mb, None) \<and>
       fst (Store_MemberSet S (store s) g (Some mb)) = Some e \<longrightarrow>
      fst (State_Member S A g u s) = (Some mb, Some e))
   \<and> (snd (Store_Message S (store s) c i) \<noteq> None \<and>
       Session_Message A (calls s) c i = (Some m, None) \<and>
       State_Channel S A c (s\<lparr>calls := calls s @ [CallMessage c i]\<rparr>) = ((Some ch, None), s') \<and>
       fst (Store_MessageSet S (store s') (Some (stamp (channel_GuildID ch) m))) = Some e \<longrightarrow>
      fst (State_Message S A c i s) = Return (Some (stamp (channel_GuildID ch) m), Some e))
   \<and> (snd (Store_Message S (store s) c i) \<noteq> None \<and>
       Session_Message A (calls s) c i = (Some m, None) \<and>
       State_Channel S A c (s\<lparr>calls := calls s @ [CallMessage c i]\<rparr>) = ((cho, Some ce), s') \<and>
       fst (Store_MessageSet S (store s') (Some m)) = Some e \<longrightarrow>
      fst (State_Message S A c i s) = Return (Some m, Some e))
   \<and> (snd (Store_Emojis S (store s) g) \<noteq> None \<and> Session_Emojis A (calls s) g = (es, None) \<and>
       fst (Store_EmojiSet S (store s) g es) = Some e \<longrightarrow>
      fst (State_Emojis S A g s) = (es, Some e))"
  by (intro conjI Self_write_failure Channel_write_failure Guild_write_failure
      Member_write_failure Message_write_failure_stamped Message_write_failure_unstamped
      Emojis_write_failure)

text \<open>The property on a store that refuses every write.\<close>

theorem write_back_failure_witness:
  "fst (State_Self mem_Store api (state0 mem_readonly)) = (Some alice, Some (Err ''read-only''))
   \<and> fst (State_Channel mem_Store api 7 (state0 mem_readonly))
       = (Some channel7, Some (Err ''read-only''))
   \<and> fst (State_Guild mem_Store api 1 (state0 mem_readonly))
       = (Some guild1, Some (Err ''read-only''))
   \<and> fst (State_Member mem_Store api 1 5 (state0 mem_readonly))
       = (Some member5, Some (Err ''read-only''))
   \<and> fst (State_Message mem_Store api 7 70 (state0 mem_readonly7))
       = Return (Some (stamp 1 (msg 70)), Some (Err ''read-only''))
   \<and> fst (State_Message mem_Store api 7 70 (state0 mem_readonly))
       = Return (Some (msg 70), Some (Err ''read-only''))
   \<and> fst (State_Emojis mem_Store api 1 (state0 mem_readonly))
       = ([emoji21], Some (Err ''read-only''))"
proof -
  have ch7: "State_Channel mem_Store api 7 ((state0 mem_readonly7)\<lparr>calls := calls (state0 mem_readonly7) @ [CallMessage 7 70]\<rparr>)
      = ((Some channel7, None), (state0 mem_readonly7)\<lparr>calls := [CallMessage 7 70]\<rparr>)"
    by (simp add: State_Channel_def fixture_defs)
  have ch: "State_Channel mem_Store api 7 ((state0 mem_readonly)\<lparr>calls := calls (state0 mem_readonly) @ [CallMessage 7 70]\<rparr>)
      = ((Some channel7, Some (Err ''read-only'')), (state0 mem_readonly)\<lparr>calls := [CallMessage 7 70, CallChannel 7]\<rparr>)"
    by (simp add: State_Channel_def fixture_defs)
  note w = write_back_failure[where S = mem_Store and A = api and s = "state0 mem_readonly"
      and e = "Err ''read-only''" and v = alice and c = 7 and ch = channel7 and g = 1
      and gd = guild1 and u = 5 and mb = member5 and i = 70 and m = "msg 70"
      and cho = "Some channel7" and ce = "Err ''read-only''" and es = "[emoji21]"
      and s' = "(state0 mem_readonly)\<lparr>calls := [CallMessage 7 70, CallChannel 7]\<rparr>"]
  note w7 = write_back_failure[where S = mem_Store and A = api and s = "state0 mem_readonly7"
      and e = "Err ''read-only''" and c = 7 and ch = channel7 and i = 70 and m = "msg 70"
      and s' = "(state0 mem_readonly7)\<lparr>calls := [CallMessage 7 70]\<rparr>"]
  have 1: "fst (State_Self mem_Store api (state0 mem_readonly)) = (Some alice, Some (Err ''read-only''))"
    using w by (simp add: fixture_defs)
  have 2: "fst (State_Channel mem_Store api 7 (state0 mem_readonly)) = (Some channel7, Some (Err ''read-only''))"
    using w by (simp add: fixture_defs)
  have 3: "fst (State_Guild mem_Store api 1 (state0 mem_readonly)) = (Some guild1, Some (Err ''read-only''))"
    using w by (simp add: fixture_defs)
  have 4: "fst (State_Member mem_Store api 1 5 (state0 mem_readonly)) = (Some member5, Some (Err ''read-only''))"
    using w by (simp add: fixture_defs)
  have 5: "fst (State_Message mem_Store api 7 70 (state0 mem_readonly7))
       = Return (Some (stamp 1 (msg 70)), Some (Err ''read-only''))"
    using w7 ch7 by (simp add: fixture_defs stamp_def)
  have 6: "fst (State_Message mem_Store api 7 70 (state0 mem_readonly))
       = Return (Some (msg 70), Some (Err ''read-only''))"
    using w ch by (simp add: fixture_defs)
  have 7: "fst (State_Emojis mem_Store api 1 (state0 mem_readonly)) = ([emoji21], Some (Err ''read-only''))"
    using w by (simp add: fixture_defs)
  from 1 2 3 4 5 6 7 show ?thesis by simp
qed

section \<open>The guild identifier of fetched messages\<close>

lemma Message_channel_lookup_fails:
  "snd (Store_Message S (store s) c i) \<noteq> None \<and> Session_Message A (calls s) c i = (mo, None) \<and>
   State_Channel S A c (s\<lparr>calls := calls s @ [CallMessage c i]\<rparr>) = ((cho, Some ce), s') \<longrightarrow>
     State_Message S A c i s
       = (Return (mo, fst (Store_MessageSet S (store s') mo)),
          s'\<lparr>store := snd (Store_MessageSet S (store s') mo)\<rparr>)"
  by (auto simp: State_Message_def Let_def split: prod.splits)

lemma Messages_channel_lookup_fails:
  "\<not> Messages_warm S c s \<and> Session_Messages A (calls s) c 100 = (ms, None) \<and>
   State_Channel S A c (s\<lparr>calls := calls s @ [CallMessages c 100]\<rparr>) = ((cho, Some ce), s') \<and>
   range_set (Store_MessageSet S) (map (stamp 0) ms) (store s') = (None, st) \<and>
   0 \<le> Store_MaxMessages S (store s) \<longrightarrow>
     State_Messages S A c s
       = (if int (length ms) < Store_MaxMessages S (store s)
          then (Return (map (stamp 0) ms, None),
                s'\<lparr>store := st, fewMessages := fewMessages s' @ [c]\<rparr>)
          else (Return (take (nat (Store_MaxMessages S (store s))) (map (stamp 0) ms), None),
                s'\<lparr>store := st\<rparr>))"
  by (auto simp: State_Messages_def Messages_fetch_def Messages_warm_def Let_def
      stamp_set_range_set split: prod.splits)

lemma Messages_channel_lookup_fails_write_fails:
  "\<not> Messages_warm S c s \<and> Session_Messages A (calls s) c 100 = (ms, None) \<and>
   State_Channel S A c (s\<lparr>calls := calls s @ [CallMessages c 100]\<rparr>) = ((cho, Some ce), s') \<and>
   range_set (Store_MessageSet S) (map (stamp 0) ms) (store s') = (Some we, st) \<longrightarrow>
     State_Messages S A c s = (Return ([], Some we), s'\<lparr>store := st\<rparr>)"
  by (auto simp: State_Messages_def Messages_fetch_def Messages_warm_def Let_def
      stamp_set_range_set split: prod.splits)

text \<open>
  C10. When the channel lookup that \<open>Message\<close> and \<open>Messages\<close> run to find the
  owning guild fails with an error \<open>ce\<close>, that error goes nowhere. \<open>Message\<close>
  writes the message back as it was fetched, its guild identifier untouched, and returns
  it with the result of that write. \<open>Messages\<close> stamps the zero identifier on every
  message and writes them all; with every write done it returns them without an error,
  under the rules of the cap, and the only error it can return instead is that of a write.
\<close>

theorem channel_lookup_failure_swallowed:
  "(snd (Store_Message S (store s) c i) \<noteq> None \<and> Session_Message A (calls s) c i = (mo, None) \<and>
    State_Channel S A c (s\<lparr>calls := calls s @ [CallMessage c i]\<rparr>) = ((cho, Some ce), s') \<longrightarrow>
      State_Message S A c i s
        = (Return (mo, fst (Store_MessageSet S (store s') mo)),
           s'\<lparr>store := snd (Store_MessageSet S (store s') mo)\<rparr>))
   \<and> (\<not> Messages_warm S c s \<and> Session_Messages A (calls s) c 100 = (ms, None) \<and>
       State_Channel S A c (s\<lparr>calls := calls s @ [CallMessages c 100]\<rparr>) = ((cho, Some ce), s') \<and>
       range_set (Store_MessageSet S) (map (stamp 0) ms) (store s') = (None, st) \<and>
       0 \<le> Store_MaxMessages S (store s) \<longrightarrow>
      State_Messages S A c s
        = (if int (length ms) < Store_MaxMessages S (store s)
           then (Return (map (stamp 0) ms, None),
                 s'\<lparr>store := st, fewMessages := fewMessages s' @ [c]\<rparr>)
           else (Return (take (nat (Store_MaxMessages S (store s))) (map (stamp 0) ms), None),
                 s'\<lparr>store := st\<rparr>)))
   \<and> (\<not> Messages_warm S c s \<and> Session_Messages A (calls s) c 100 = (ms, None) \<and>
       State_Channel S A c (s\<lparr>calls := calls s @ [CallMessages c 100]\<rparr>) = ((cho, Some ce), s') \<and>
       range_set (Store_MessageSet S) (map (stamp 0) ms) (store s') = (Some we, st) \<longrightarrow>
      State_Messages S A c s = (Return ([], Some we), s'\<lparr>store := st\<rparr>))"
  by (intro conjI Message_channel_lookup_fails Messages_channel_lookup_fails
      Messages_channel_lookup_fails_write_fails)

text \<open>
  The property at a remote service that serves messages but no channels: on the empty
  store both accessors succeed, and on the store that refuses writes \<open>Messages\<close> fails
  with the error of the write.
\<close>

theorem channel_lookup_failure_swallowed_witness:
  "State_Message mem_Store api_no_channel 7 70 (state0 mem_empty)
     = (Return (Some (msg 70), None),
        \<lparr>store = mem_empty\<lparr>m_messages := [msg 70]\<rparr>, fewMessages = [],
           calls = [CallMessage 7 70, CallChannel 7]\<rparr>)
   \<and> State_Messages mem_Store api_no_channel 7 (state0 mem_empty)
     = (Return (history, None),
        \<lparr>store = mem_empty\<lparr>m_messages := history\<rparr>, fewMessages = [7],
           calls = [CallMessages 7 100, CallChannel 7]\<rparr>)
   \<and> State_Messages mem_Store api_no_channel 7 (state0 mem_readonly)
     = (Return ([], Some (Err ''read-only'')),
        \<lparr>store = mem_readonly, fewMessages = [],
           calls = [CallMessages 7 100, CallChannel 7]\<rparr>)"
proof -
  have ch: "State_Channel mem_Store api_no_channel 7
        ((state0 mem_empty)\<lparr>calls := calls (state0 mem_empty) @ [CallMessage 7 70]\<rparr>)
      = ((None, Some (Err ''503'')),
         \<lparr>store = mem_empty, fewMessages = [], calls = [CallMessage 7 70, CallChannel 7]\<rparr>)"
    by (simp add: State_Channel_def fixture_defs)
  have chs: "State_Channel mem_Store api_no_channel 7
        ((state0 mem_empty)\<lparr>calls := calls (state0 mem_empty) @ [CallMessages 7 100]\<rparr>)
      = ((None, Some (Err ''503'')),
         \<lparr>store = mem_empty, fewMessages = [], calls = [CallMessages 7 100, CallChannel 7]\<rparr>)"
    by (simp add: State_Channel_def fixture_defs)
  have chr: "State_Channel mem_Store api_no_channel 7
        ((state0 mem_readonly)\<lparr>calls := calls (state0 mem_readonly) @ [CallMessages 7 100]\<rparr>)
      = ((None, Some (Err ''503'')),
         \<lparr>store = mem_readonly, fewMessages = [], calls = [CallMessages 7 100, CallChannel 7]\<rparr>)"
    by (simp add: State_Channel_def fixture_defs)
  have st: "map (stamp 0) history = history"
    by (simp add: stamp_def history_def msg_def)
  have wr: "range_set (Store_MessageSet mem_Store) history mem_empty
      = (None, mem_empty\<lparr>m_messages := history\<rparr>)"
    by (simp add: fixture_defs)
  have wrr: "range_set (Store_MessageSet mem_Store) history mem_readonly
      = (Some (Err ''read-only''), mem_readonly)"
    by (simp add: fixture_defs)
  have cold: "\<not> Messages_warm mem_Store 7 (state0 mem_empty)"
    "\<not> Messages_warm mem_Store 7 (state0 mem_readonly)"
    by (simp_all add: Messages_warm_def fixture_defs)
  have fetch: "Session_Messages api_no_channel (calls (state0 mem_empty)) 7 100 = (history, None)"
    "Session_Messages api_no_channel (calls (state0 mem_readonly)) 7 100 = (history, None)"
    by (simp_all add: api_no_channel_def api_def history_def)
  have cap: "Store_MaxMessages mem_Store (store (state0 mem_empty)) = 50"
    by (simp add: fixture_defs)
  have len: "length history = 10"
    by (simp add: history_def)
  have miss: "snd (Store_Message mem_Store (store (state0 mem_empty)) 7 70) \<noteq> None"
    "Session_Message api_no_channel (calls (state0 mem_empty)) 7 70 = (Some (msg 70), None)"
    by (simp_all add: fixture_defs)
  have put: "Store_MessageSet mem_Store mem_empty (Some (msg 70))
      = (None, mem_empty\<lparr>m_messages := [msg 70]\<rparr>)"
    by (simp add: fixture_defs)
  note sw = channel_lookup_failure_swallowed[where S = mem_Store and A = api_no_channel
        and c = 7 and i = 70 and mo = "Some (msg 70)" and cho = None and ce = "Err ''503''"
        and ms = history]
  have "State_Message mem_Store api_no_channel 7 70 (state0 mem_empty)
     = (Return (Some (msg 70), fst (Store_MessageSet mem_Store mem_empty (Some (msg 70)))),
        \<lparr>store = mem_empty, fewMessages = [], calls = [CallMessage 7 70, CallChannel 7]\<rparr>
          \<lparr>store := snd (Store_MessageSet mem_Store mem_empty (Some (msg 70)))\<rparr>)"
    using sw[where s = "state0 mem_empty"
        and s' = "\<lparr>store = mem_empty, fewMessages = [], calls = [CallMessage 7 70, CallChannel 7]\<rparr>"]
      miss ch by simp
  then have 1: "State_Message mem_Store api_no_channel 7 70 (state0 mem_empty)
     = (Return (Some (msg 70), None),
        \<lparr>store = mem_empty\<lparr>m_messages := [msg 70]\<rparr>, fewMessages = [],
           calls = [CallMessage 7 70, CallChannel 7]\<rparr>)"
    by (simp add: put)
  have "State_Messages mem_Store api_no_channel 7 (state0 mem_empty)
     = (Return (map (stamp 0) history, None),
        \<lparr>store = mem_empty, fewMessages = [], calls = [CallMessages 7 100, CallChannel 7]\<rparr>
          \<lparr>store := mem_empty\<lparr>m_messages := history\<rparr>, fewMessages := [] @ [7]\<rparr>)"
    using sw[where s = "state0 mem_empty" and st = "mem_empty\<lparr>m_messages := history\<rparr>"
        and s' = "\<lparr>store = mem_empty, fewMessages = [], calls = [CallMessages 7 100, CallChannel 7]\<rparr>"]
      cold(1) fetch(1) chs wr by (simp add: st cap len)
  then have 2: "State_Messages mem_Store api_no_channel 7 (state0 mem_empty)
     = (Return (history, None),
        \<lparr>store = mem_empty\<lparr>m_messages := history\<rparr>, fewMessages = [7],
           calls = [CallMessages 7 100, CallChannel 7]\<rparr>)"
    by (simp add: st)
  have "State_Messages mem_Store api_no_channel 7 (state0 mem_readonly)
     = (Return ([], Some (Err ''read-only'')),
        \<lparr>store = mem_readonly, fewMessages = [], calls = [CallMessages 7 100, CallChannel 7]\<rparr>
          \<lparr>store := mem_readonly\<rparr>)"
    using sw[where s = "state0 mem_readonly" and st = mem_readonly and we = "Err ''read-only''"
        and s' = "\<lparr>store = mem_readonly, fewMessages = [], calls = [CallMessages 7 100, CallChannel 7]\<rparr>"]
      cold(2) fetch(2) chr wrr by (simp add: st)
  then have 3: "State_Messages mem_Store api_no_channel 7 (state0 mem_readonly)
     = (Return ([], Some (Err ''read-only'')),
        \<lparr>store = mem_readonly, fewMessages = [],
           calls = [CallMessages 7 100, CallChannel 7]\<rparr>)"
    by simp
  from 1 2 3 show ?thesis by simp
qed

section \<open>The singular role lookup\<close>

text \<open>
  After a storage miss and a fetch, \<open>Role\<close> writes the fetched roles in order until a
  write fails (\<open>State_Role_fetched\<close>). With every write done it returns no error, and
  the pointer it returns is nil when no fetched role has the identifier; otherwise it is
  the address of the loop variable, which then holds the last role of the collection
  (\<open>State_Role_all_written\<close>).
\<close>

lemma State_Role_fetched:
  assumes "snd (Store_Role S (store s) g i) \<noteq> None" and "Session_Roles A (calls s) g = (rs, None)"
  shows "State_Role S A g i s =
     (fst (Role_range S g i (Suc (length (calls s))) rs NilRole None (store s)),
      s\<lparr>calls := calls s @ [CallRoles g],
        store := snd (range_var_set (\<lambda>st. Store_RoleSet_var S st g) (Store_Role_assign S)
                (Suc (length (calls s))) rs (store s))\<rparr>)"
proof -
  have "snd (Role_range S g i (Suc (length (calls s))) rs NilRole None (store s))
        = snd (range_var_set (\<lambda>st. Store_RoleSet_var S st g) (Store_Role_assign S)
                (Suc (length (calls s))) rs (store s))"
    by (rule Role_range_store)
  then show ?thesis
    using assms by (auto simp: State_Role_def loop_var_def Let_def split: prod.splits)
qed

lemma State_Role_all_written:
  assumes "snd (Store_Role S (store s) g i) \<noteq> None" and "Session_Roles A (calls s) g = (rs, None)"
    and "fst (range_var_set (\<lambda>st. Store_RoleSet_var S st g) (Store_Role_assign S)
                (Suc (length (calls s))) rs (store s)) = None"
  shows "fst (State_Role S A g i s) =
     (if \<exists>x \<in> set rs. role_ID x = i then Some (last rs) else None, None)"
proof -
  have "fst (fst (Role_range S g i (Suc (length (calls s))) rs NilRole None (store s)))
        = (if \<exists>x \<in> set rs. role_ID x = i then Some (last rs) else None)"
    using Role_range_pointer[OF assms(3), of i NilRole None] by auto
  moreover have "snd (fst (Role_range S g i (Suc (length (calls s))) rs NilRole None (store s))) = None"
    using assms(3) by (simp add: Role_range_error)
  ultimately show ?thesis
    using State_Role_fetched[OF assms(1,2)] by (simp add: prod_eq_iff)
qed

text \<open>
  C4. The specification has \<open>Role\<close> return a pointer to the matching role. On the
  empty store, with the roles 11 and 12 fetched in this order and every write done, the
  lookup of role 11 returns the pointer with role 12 behind it.
\<close>

theorem Role_returns_loop_variable:
  "Store_Role mem_Store (store (state0 mem_empty)) 1 11 = (None, Some ErrStoreNotFound)
   \<and> Session_Roles api (calls (state0 mem_empty)) 1 = ([role11, role12], None)
   \<and> role_ID role11 = 11 \<and> role_ID role12 = 12
   \<and> State_Role mem_Store api 1 11 (state0 mem_empty)
      = ((Some role12, None),
         \<lparr>store = mem_empty\<lparr>m_roles := [(1, role11), (1, role12)]\<rparr>, fewMessages = [],
            calls = [CallRoles 1]\<rparr>)"
  by (simp add: State_Role_def loop_var_def fixture_defs)

section \<open>Display names and colours\<close>

lemma MemberDisplayName_error:
  "State_Member S A g u s = ((mo, Some e), s') \<longrightarrow>
     State_MemberDisplayName S A g u s = (Return ('''', Some e), s')"
  by (simp add: State_MemberDisplayName_def)

lemma MemberDisplayName_member:
  "State_Member S A g u s = ((Some mb, None), s') \<longrightarrow>
     State_MemberDisplayName S A g u s
       = (Return (if Nick mb = '''' then Username (User mb) else Nick mb, None), s')"
  by (simp add: State_MemberDisplayName_def)

lemma MemberDisplayName_nil:
  "State_Member S A g u s = ((None, None), s') \<longrightarrow>
     State_MemberDisplayName S A g u s = (Panic, s')"
  by (simp add: State_MemberDisplayName_def)

lemma AuthorDisplayName_invalid:
  "\<not> Valid D (message_GuildID m) \<longrightarrow>
     State_AuthorDisplayName D S A m s = (Return (Username (Author m)), s)"
  by (simp add: State_AuthorDisplayName_def)

lemma AuthorDisplayName_error:
  "Valid D (message_GuildID m) \<and>
   State_Member S A (message_GuildID m) (user_ID (Author m)) s = ((mo, Some e), s') \<longrightarrow>
     State_AuthorDisplayName D S A m s = (Return (Username (Author m)), s')"
  by (simp add: State_AuthorDisplayName_def State_MemberDisplayName_def)

lemma AuthorDisplayName_member:
  "Valid D (message_GuildID m) \<and>
   State_Member S A (message_GuildID m) (user_ID (Author m)) s = ((Some mb, None), s') \<longrightarrow>
     State_AuthorDisplayName D S A m s
       = (Return (if Nick mb = '''' then Username (User mb) else Nick mb), s')"
  by (simp add: State_AuthorDisplayName_def State_MemberDisplayName_def)

lemma MemberColor_member_error:
  "State_Member S A g u s = ((mo, Some e), s') \<longrightarrow>
     State_MemberColor D S A g u s = (Return (DefaultMemberColor D), s')"
  by (simp add: State_MemberColor_def)

lemma MemberColor_guild_error:
  "State_Member S A g u s = ((mo, None), s') \<and> State_Guild S A g s' = ((go, Some e), s'') \<longrightarrow>
     State_MemberColor D S A g u s = (Return (DefaultMemberColor D), s'')"
  by (simp add: State_MemberColor_def)

lemma MemberColor_found:
  "State_Member S A g u s = ((Some mb, None), s') \<and>
   State_Guild S A g s' = ((Some gd, None), s'') \<longrightarrow>
     State_MemberColor D S A g u s = (Return (MemberColor D gd mb), s'')"
  by (simp add: State_MemberColor_def)

lemma AuthorColor_invalid:
  "\<not> Valid D (message_GuildID m) \<longrightarrow>
     State_AuthorColor D S A m s = (Return (DefaultMemberColor D), s)"
  by (simp add: State_AuthorColor_def)

lemma AuthorColor_valid:
  "Valid D (message_GuildID m) \<longrightarrow>
     State_AuthorColor D S A m s
       = State_MemberColor D S A (message_GuildID m) (user_ID (Author m)) s"
  by (simp add: State_AuthorColor_def)

text \<open>
  C7, as the code has it. \<open>AuthorDisplayName\<close>, \<open>AuthorColor\<close> and \<open>MemberColor\<close>
  have no error result and swallow the errors of their lookups: \<open>AuthorDisplayName\<close>
  returns the username carried by the message when the guild identifier is not valid or
  the member lookup fails; with a member found it returns the nickname, or the username
  of the member record when the nickname is empty. The colour helpers return
  \<open>DefaultMemberColor\<close> when the guild identifier is not valid or the member or guild
  lookup fails, and the colour of the member in the guild otherwise. \<open>MemberDisplayName\<close>
  is not best-effort: it returns the error of the member lookup with an empty name. (A
  lookup that returns a nil pointer without an error is outside these cases.)
\<close>

theorem display_helpers:
  "(\<not> Valid D (message_GuildID m) \<longrightarrow>
      State_AuthorDisplayName D S A m s = (Return (Username (Author m)), s))
   \<and> (Valid D (message_GuildID m) \<and>
       State_Member S A (message_GuildID m) (user_ID (Author m)) s = ((mo, Some e), s') \<longrightarrow>
      State_AuthorDisplayName D S A m s = (Return (Username (Author m)), s'))
   \<and> (Valid D (message_GuildID m) \<and>
       State_Member S A (message_GuildID m) (user_ID (Author m)) s = ((Some mb, None), s') \<longrightarrow>
      State_AuthorDisplayName D S A m s
        = (Return (if Nick mb = '''' then Username (User mb) else Nick mb), s'))
   \<and> (State_Member S A g u s = ((mo, Some e), s') \<longrightarrow>
      State_MemberDisplayName S A g u s = (Return ('''', Some e), s'))
   \<and> (State_Member S A g u s = ((Some mb, None), s') \<longrightarrow>
      State_MemberDisplayName S A g u s
        = (Return (if Nick mb = '''' then Username (User mb) else Nick mb, None), s'))
   \<and> (\<not> Valid D (message_GuildID m) \<longrightarrow>
      State_AuthorColor D S A m s = (Return (DefaultMemberColor D), s))
   \<and> (Valid D (message_GuildID m) \<longrightarrow>
      State_AuthorColor D S A m s
        = State_MemberColor D S A (message_GuildID m) (user_ID (Author m)) s)
   \<and> (State_Member S A g u s = ((mo, Some e), s') \<longrightarrow>
      State_MemberColor D S A g u s = (Return (DefaultMemberColor D), s'))
   \<and> (State_Member S A g u s = ((mo, None), s') \<and>
       State_Guild S A g s' = ((go, Some e), s'') \<longrightarrow>
      State_MemberColor D S A g u s = (Return (DefaultMemberColor D), s''))
   \<and> (State_Member S A g u s = ((Some mb, None), s') \<and>
       State_Guild S A g s' = ((Some gd, None), s'') \<longrightarrow>
      State_MemberColor D S A g u s = (Return (MemberColor D gd mb), s''))"
  by (intro conjI AuthorDisplayName_invalid AuthorDisplayName_error AuthorDisplayName_member
      MemberDisplayName_error MemberDisplayName_member AuthorColor_invalid AuthorColor_valid
      MemberColor_member_error MemberColor_guild_error MemberColor_found)

text \<open>
  The specification has every display-name helper return a username and no error. At
  \<open>MemberDisplayName\<close>, with the remote service down, the member lookup fails, and the
  helper returns that error and the empty name.
\<close>

theorem display_helpers_counterexample:
  "State_Member mem_Store api_down 1 5 (state0 mem_empty)
     = ((None, Some (Err ''503'')),
        \<lparr>store = mem_empty, fewMessages = [], calls = [CallMember 1 5]\<rparr>)
   \<and> fst (State_MemberDisplayName mem_Store api_down 1 5 (state0 mem_empty))
     = Return ('''', Some (Err ''503''))"
  by (simp add: State_MemberDisplayName_def State_Member_def fixture_defs)

text \<open>
  The cases of the property on the empty store: a message outside a guild, the remote
  service down, a member without a nickname whose record carries another username than
  the message, a remote service without guilds, and a guild found.
\<close>

theorem display_helpers_witness:
  "fst (State_AuthorDisplayName disc mem_Store api (msg 70) (state0 mem_empty)) = Return ''alice''
   \<and> fst (State_AuthorDisplayName disc mem_Store api_down msg_renamed (state0 mem_empty))
       = Return ''alicia''
   \<and> fst (State_AuthorDisplayName disc mem_Store api msg_renamed (state0 mem_empty))
       = Return ''alice''
   \<and> fst (State_MemberDisplayName mem_Store api_down 1 5 (state0 mem_empty))
       = Return ('''', Some (Err ''503''))
   \<and> fst (State_MemberDisplayName mem_Store api 1 5 (state0 mem_empty)) = Return (''alice'', None)
   \<and> fst (State_AuthorColor disc mem_Store api (msg 70) (state0 mem_empty)) = Return 0
   \<and> fst (State_AuthorColor disc mem_Store api msg_renamed (state0 mem_empty)) = Return 255
   \<and> fst (State_MemberColor disc mem_Store api_down 1 5 (state0 mem_empty)) = Return 0
   \<and> fst (State_MemberColor disc mem_Store api_no_guild 1 5 (state0 mem_empty)) = Return 0
   \<and> fst (State_MemberColor disc mem_Store api 1 5 (state0 mem_empty)) = Return 255"
proof -
  define s1 :: "mem State" where
    "s1 = \<lparr>store = mem_empty, fewMessages = [], calls = [CallMember 1 5]\<rparr>"
  define s2 :: "mem State" where
    "s2 = \<lparr>store = mem_empty\<lparr>m_members := [(1, member5)]\<rparr>, fewMessages = [],
            calls = [CallMember 1 5]\<rparr>"
  define s3 :: "mem State" where
    "s3 = \<lparr>store = mem_empty\<lparr>m_members := [(1, member5)]\<rparr>, fewMessages = [],
            calls = [CallMember 1 5, CallGuild 1]\<rparr>"
  define s4 :: "mem State" where
    "s4 = \<lparr>store = mem_empty\<lparr>m_members := [(1, member5)], m_guilds := [guild1]\<rparr>,
            fewMessages = [], calls = [CallMember 1 5, CallGuild 1]\<rparr>"
  have valid: "\<not> Valid disc (message_GuildID (msg 70))" "Valid disc (message_GuildID msg_renamed)"
    by (simp_all add: disc_def msg_def msg_renamed_def)
  have key: "message_GuildID msg_renamed = 1" "user_ID (Author msg_renamed) = 5"
    "Username (Author msg_renamed) = ''alicia''" "Username (Author (msg 70)) = ''alice''"
    by (simp_all add: msg_renamed_def msg_def alice_def)
  have down: "State_Member mem_Store api_down 1 5 (state0 mem_empty) = ((None, Some (Err ''503'')), s1)"
    by (simp add: State_Member_def s1_def fixture_defs)
  have up: "State_Member mem_Store api 1 5 (state0 mem_empty) = ((Some member5, None), s2)"
    by (simp add: State_Member_def s2_def fixture_defs)
  have up': "State_Member mem_Store api_no_guild 1 5 (state0 mem_empty) = ((Some member5, None), s2)"
    by (simp add: State_Member_def s2_def fixture_defs)
  have guild_down: "State_Guild mem_Store api_no_guild 1 s2 = ((None, Some (Err ''503'')), s3)"
    by (simp add: State_Guild_def s2_def s3_def fixture_defs)
  have guild_up: "State_Guild mem_Store api 1 s2 = ((Some guild1, None), s4)"
    by (simp add: State_Guild_def s2_def s4_def fixture_defs)
  have nick: "Nick member5 = ''''" "Username (User member5) = ''alice''"
    by (simp_all add: member5_def alice_def)
  have col: "DefaultMemberColor disc = 0" "MemberColor disc guild1 member5 = 255"
    by (simp_all add: disc_def)
  note h = display_helpers[where D = disc and S = mem_Store and s = "state0 mem_empty"
      and g = 1 and u = 5]
  have 1: "fst (State_AuthorDisplayName disc mem_Store api (msg 70) (state0 mem_empty)) = Return ''alice''"
    using h[where A = api and m = "msg 70"] valid(1) by (simp add: key)
  have 2: "fst (State_AuthorDisplayName disc mem_Store api_down msg_renamed (state0 mem_empty))
       = Return ''alicia''"
    using h[where A = api_down and m = msg_renamed and mo = None and e = "Err ''503''" and s' = s1]
      valid(2) down by (simp add: key)
  have 3: "fst (State_AuthorDisplayName disc mem_Store api msg_renamed (state0 mem_empty))
       = Return ''alice''"
    using h[where A = api and m = msg_renamed and mb = member5 and s' = s2]
      valid(2) up by (simp add: key nick)
  have 4: "fst (State_MemberDisplayName mem_Store api_down 1 5 (state0 mem_empty))
       = Return ('''', Some (Err ''503''))"
    using h[where A = api_down and mo = None and e = "Err ''503''" and s' = s1] down by simp
  have 5: "fst (State_MemberDisplayName mem_Store api 1 5 (state0 mem_empty)) = Return (''alice'', None)"
    using h[where A = api and mb = member5 and s' = s2] up by (simp add: nick)
  have 6: "fst (State_AuthorColor disc mem_Store api (msg 70) (state0 mem_empty)) = Return 0"
    using h[where A = api and m = "msg 70"] valid(1) by (simp add: col)
  have 8: "fst (State_MemberColor disc mem_Store api_down 1 5 (state0 mem_empty)) = Return 0"
    using h[where A = api_down and mo = None and e = "Err ''503''" and s' = s1] down
    by (simp add: col)
  have 9: "fst (State_MemberColor disc mem_Store api_no_guild 1 5 (state0 mem_empty)) = Return 0"
    using h[where A = api_no_guild and mo = "Some member5" and go = None and e = "Err ''503''"
        and s' = s2 and s'' = s3] up' guild_down
    by (simp add: col)
  have 10: "fst (State_MemberColor disc mem_Store api 1 5 (state0 mem_empty)) = Return 255"
    using h[where A = api and mb = member5 and gd = guild1 and s' = s2 and s'' = s4] up guild_up
    by (simp add: col)
  have 7: "fst (State_AuthorColor disc mem_Store api msg_renamed (state0 mem_empty)) = Return 255"
    using h[where A = api and m = msg_renamed] valid(2) 10 by (simp add: key)
  from 1 2 3 4 5 6 7 8 9 10 show ?thesis by simp
qed

section \<open>Messages and the list of channels with few messages\<close>

lemma Messages_warm_hit:
  "Messages_warm S c s \<longrightarrow>
     State_Messages S A c s = (Return (fst (Store_Messages S (store s) c), None), s)"
  by (auto simp: State_Messages_def Messages_warm_def Let_def split: prod.splits)

lemma fetches_append: "fetches (s\<lparr>calls := calls s @ cs\<rparr>) = fetches s @ filter is_fetch cs"
  by (simp add: fetches_def)

lemma State_Channel_fetches:
  "fetches (snd (State_Channel S A c s)) =
     fetches s @ (if snd (Store_Channel S (store s) c) = None then [] else [CallChannel c])"
  by (simp add: fetches_def State_Channel_calls)

lemma Messages_fetch_result:
  assumes fetch: "Session_Messages A (calls s) c 100 = (ms, None)"
    and chan: "State_Channel S A c (s\<lparr>calls := calls s @ [CallMessages c 100]\<rparr>) = ((cho, cerr), s')"
    and nopanic: "cerr = None \<longrightarrow> cho = Some ch"
    and g: "g = (if cerr = None then channel_GuildID ch else 0)"
    and writes: "range_set (Store_MessageSet S) (map (stamp g) ms) (store s') = (None, st)"
    and cap: "0 \<le> mx"
  shows "Messages_fetch S A c mx s =
     (if int (length ms) < mx
      then (Return (map (stamp g) ms, None),
            s'\<lparr>store := st, fewMessages := fewMessages s' @ [c]\<rparr>)
      else (Return (take (nat mx) (map (stamp g) ms), None), s'\<lparr>store := st\<rparr>))"
proof (cases "cerr = None")
  case True
  then have "cho = Some ch" "g = channel_GuildID ch" using nopanic g by simp_all
  then show ?thesis
    using fetch chan writes cap True
    by (simp add: Messages_fetch_def Let_def stamp_set_range_set)
next
  case False
  then obtain ce where "cerr = Some ce" by auto
  moreover from this have "g = 0" using g by simp
  ultimately show ?thesis
    using fetch chan writes cap
    by (simp add: Messages_fetch_def Let_def stamp_set_range_set)
qed

lemma Messages_cold:
  "\<not> Messages_warm S c s \<Longrightarrow>
   State_Messages S A c s = Messages_fetch S A c (Store_MaxMessages S (store s)) s"
  by (auto simp: State_Messages_def Messages_warm_def Let_def split: prod.splits)

text \<open>Facts of the examples: the empty stores with a cap of 50 and of 3, ten messages.\<close>

lemma example_cold:
  "\<not> Messages_warm mem_Store 7 (state0 mem_empty)"
  "\<not> Messages_warm mem_Store 7 (state0 mem_cap3)"
  by (simp_all add: Messages_warm_def fixture_defs)

lemma example_history:
  "Session_Messages api h 7 100 = (history, None)" "length history = 10"
  by (simp_all add: api_def history_def)

lemma example_channel:
  "State_Channel mem_Store api 7 ((state0 mem_empty)\<lparr>calls := calls (state0 mem_empty) @ [CallMessages 7 100]\<rparr>)
     = ((Some channel7, None), s_fetched mem_empty)"
  "State_Channel mem_Store api 7 ((state0 mem_cap3)\<lparr>calls := calls (state0 mem_cap3) @ [CallMessages 7 100]\<rparr>)
     = ((Some channel7, None), s_fetched mem_cap3)"
  by (simp_all add: State_Channel_def s_fetched_def fixture_defs)

lemma example_writes:
  "range_set (Store_MessageSet mem_Store) (map (stamp 1) history) (store (s_fetched mem_empty))
     = (None, mem_empty\<lparr>m_channels := [channel7], m_messages := map (stamp 1) history\<rparr>)"
  "range_set (Store_MessageSet mem_Store) (map (stamp 1) history) (store (s_fetched mem_cap3))
     = (None, mem_cap3\<lparr>m_channels := [channel7], m_messages := map (stamp 1) history\<rparr>)"
  by (simp_all add: s_fetched_def stamp_def fixture_defs)

text \<open>
  C3, as the code has it. Let \<open>Messages\<close> not answer from the storage, let the fetch
  return \<open>ms\<close>, let the channel lookup return without a nil channel, and let every
  write succeed, with a cap of 0 or more. Then every fetched message gets the guild
  identifier of the channel (0 when the lookup failed) and is written. With fewer
  messages than the cap, the channel is added to \<open>fewMessages\<close> and all the messages
  are returned; otherwise the first cap messages are returned and \<open>fewMessages\<close> is
  left as it was. The call fetches the messages once, and the channel once when the
  channel is not in the storage. And whenever the storage serves a channel that is in
  \<open>fewMessages\<close>, \<open>Messages\<close> returns what the storage serves and the state is left
  as it was: no request goes out.
\<close>

theorem Messages_memo:
  assumes cold: "\<not> Messages_warm S c s"
    and fetch: "Session_Messages A (calls s) c 100 = (ms, None)"
    and chan: "State_Channel S A c (s\<lparr>calls := calls s @ [CallMessages c 100]\<rparr>) = ((cho, cerr), s')"
    and nopanic: "cerr = None \<longrightarrow> cho = Some ch"
    and g: "g = (if cerr = None then channel_GuildID ch else 0)"
    and writes: "range_set (Store_MessageSet S) (map (stamp g) ms) (store s') = (None, st)"
    and cap: "0 \<le> Store_MaxMessages S (store s)"
  shows "State_Messages S A c s =
      (if int (length ms) < Store_MaxMessages S (store s)
       then (Return (map (stamp g) ms, None),
             s'\<lparr>store := st, fewMessages := fewMessages s @ [c]\<rparr>)
       else (Return (take (nat (Store_MaxMessages S (store s))) (map (stamp g) ms), None),
             s'\<lparr>store := st\<rparr>))
     \<and> fewMessages s' = fewMessages s
     \<and> fetches s' = fetches s @ [CallMessages c 100]
          @ (if snd (Store_Channel S (store s) c) = None then [] else [CallChannel c])
     \<and> (\<forall>s2. Messages_warm S c s2 \<longrightarrow>
          State_Messages S A c s2 = (Return (fst (Store_Messages S (store s2) c), None), s2))"
proof (intro conjI allI)
  have few: "fewMessages s' = fewMessages s"
    using State_Channel_fewMessages[of S A c "s\<lparr>calls := calls s @ [CallMessages c 100]\<rparr>"] chan
    by simp
  then show "fewMessages s' = fewMessages s" .
  have "State_Messages S A c s = Messages_fetch S A c (Store_MaxMessages S (store s)) s"
    using cold by (auto simp: State_Messages_def Messages_warm_def Let_def split: prod.splits)
  then show "State_Messages S A c s =
      (if int (length ms) < Store_MaxMessages S (store s)
       then (Return (map (stamp g) ms, None),
             s'\<lparr>store := st, fewMessages := fewMessages s @ [c]\<rparr>)
       else (Return (take (nat (Store_MaxMessages S (store s))) (map (stamp g) ms), None),
             s'\<lparr>store := st\<rparr>))"
    using Messages_fetch_result[OF fetch chan nopanic g writes cap] few by simp
  have "fetches s' = fetches (s\<lparr>calls := calls s @ [CallMessages c 100]\<rparr>)
          @ (if snd (Store_Channel S (store (s\<lparr>calls := calls s @ [CallMessages c 100]\<rparr>)) c) = None
             then [] else [CallChannel c])"
    using State_Channel_fetches[of S A c "s\<lparr>calls := calls s @ [CallMessages c 100]\<rparr>"] chan
    by simp
  then show "fetches s' = fetches s @ [CallMessages c 100]
          @ (if snd (Store_Channel S (store s) c) = None then [] else [CallChannel c])"
    by (simp add: fetches_def)
next
  fix s2
  show "Messages_warm S c s2 \<longrightarrow>
          State_Messages S A c s2 = (Return (fst (Store_Messages S (store s2) c), None), s2)"
    by (rule Messages_warm_hit)
qed

text \<open>
  The specification has one fetch here. On the empty store with a cap of 50 and ten
  messages at the remote service, the first call makes two fetches, one for the messages
  and one for the channel.
\<close>

theorem Messages_memo_counterexample:
  "Store_Messages mem_Store (store (state0 mem_empty)) 7 = ([], Some ErrStoreNotFound)
   \<and> Store_MaxMessages mem_Store (store (state0 mem_empty)) = 50
   \<and> Session_Messages api (calls (state0 mem_empty)) 7 100 = (history, None)
   \<and> length history = 10
   \<and> fetches (snd (State_Messages mem_Store api 7 (state0 mem_empty)))
       = [CallMessages 7 100, CallChannel 7]"
proof -
  have cap: "Store_MaxMessages mem_Store (store (state0 mem_empty)) = 50"
    by (simp add: fixture_defs)
  have "Messages_fetch mem_Store api 7 50 (state0 mem_empty) =
     (Return (map (stamp 1) history, None),
      (s_fetched mem_empty)\<lparr>store := mem_empty\<lparr>m_channels := [channel7], m_messages := map (stamp 1) history\<rparr>,
         fewMessages := fewMessages (s_fetched mem_empty) @ [7]\<rparr>)"
    using Messages_fetch_result[OF example_history(1) example_channel(1), of channel7 1 _ 50]
      example_writes(1) by (simp add: example_history(2) channel7_def)
  then have "fetches (snd (State_Messages mem_Store api 7 (state0 mem_empty)))
       = [CallMessages 7 100, CallChannel 7]"
    by (simp add: Messages_cold[OF example_cold(1)] cap fetches_def s_fetched_def)
  moreover have "Store_Messages mem_Store (store (state0 mem_empty)) 7 = ([], Some ErrStoreNotFound)"
    by (simp add: fixture_defs)
  ultimately show ?thesis using cap example_history by simp
qed

text \<open>
  The property with a cap of 50 and ten messages: the first call returns the ten messages
  with guild 1 stamped and puts channel 7 in \<open>fewMessages\<close>, and a second call in the
  state after it returns the same messages and leaves the state as it is. With a cap of
  3, the first three messages are returned and \<open>fewMessages\<close> stays empty.
\<close>

theorem Messages_memo_witness:
  "State_Messages mem_Store api 7 (state0 mem_empty)
     = (Return (map (stamp 1) history, None),
        \<lparr>store = mem_empty\<lparr>m_channels := [channel7], m_messages := map (stamp 1) history\<rparr>,
           fewMessages = [7], calls = [CallMessages 7 100, CallChannel 7]\<rparr>)
   \<and> State_Messages mem_Store api 7
        \<lparr>store = mem_empty\<lparr>m_channels := [channel7], m_messages := map (stamp 1) history\<rparr>,
           fewMessages = [7], calls = [CallMessages 7 100, CallChannel 7]\<rparr>
     = (Return (map (stamp 1) history, None),
        \<lparr>store = mem_empty\<lparr>m_channels := [channel7], m_messages := map (stamp 1) history\<rparr>,
           fewMessages = [7], calls = [CallMessages 7 100, CallChannel 7]\<rparr>)
   \<and> State_Messages mem_Store api 7 (state0 mem_cap3)
     = (Return ([stamp 1 (msg 70), stamp 1 (msg 71), stamp 1 (msg 72)], None),
        \<lparr>store = mem_cap3\<lparr>m_channels := [channel7], m_messages := map (stamp 1) history\<rparr>,
           fewMessages = [], calls = [CallMessages 7 100, CallChannel 7]\<rparr>)"
proof -
  let ?st = "mem_empty\<lparr>m_channels := [channel7], m_messages := map (stamp 1) history\<rparr>"
  let ?s1 = "\<lparr>store = ?st, fewMessages = [7], calls = [CallMessages 7 100, CallChannel 7]\<rparr>"
  have cap: "Store_MaxMessages mem_Store (store (state0 mem_empty)) = 50"
    "Store_MaxMessages mem_Store (store (state0 mem_cap3)) = 3"
    by (simp_all add: fixture_defs)
  have few: "fewMessages (state0 mem_empty) = []" "fewMessages (state0 mem_cap3) = []"
    by (simp_all add: state0_def)
  have g: "(1 :: snowflake) = (if (None :: error option) = None then channel_GuildID channel7 else 0)"
    by (simp add: channel7_def)
  note m50 = Messages_memo[OF example_cold(1) example_history(1) example_channel(1) _ g
      example_writes(1)]
  note m3 = Messages_memo[OF example_cold(2) example_history(1) example_channel(2) _ g
      example_writes(2)]
  have 1: "State_Messages mem_Store api 7 (state0 mem_empty) = (Return (map (stamp 1) history, None), ?s1)"
    using m50 by (simp add: cap few example_history(2) s_fetched_def)
  have warm: "Messages_warm mem_Store 7 ?s1"
    by (simp add: Messages_warm_def mem_Store_def mem_empty_def found_all_def history_def stamp_def msg_def)
  have served: "fst (Store_Messages mem_Store (store ?s1) 7) = map (stamp 1) history"
    by (simp add: mem_Store_def mem_empty_def found_all_def history_def stamp_def msg_def)
  have 2: "State_Messages mem_Store api 7 ?s1 = (Return (map (stamp 1) history, None), ?s1)"
    using m50 warm served by (simp add: cap)
  have "take 3 (map (stamp 1) history) = [stamp 1 (msg 70), stamp 1 (msg 71), stamp 1 (msg 72)]"
    by (simp add: history_def)
  then have 3: "State_Messages mem_Store api 7 (state0 mem_cap3)
     = (Return ([stamp 1 (msg 70), stamp 1 (msg 71), stamp 1 (msg 72)], None),
        \<lparr>store = mem_cap3\<lparr>m_channels := [channel7], m_messages := map (stamp 1) history\<rparr>,
           fewMessages = [], calls = [CallMessages 7 100, CallChannel 7]\<rparr>)"
    using m3 by (simp add: cap few example_history(2) s_fetched_def)
  from 1 2 3 show ?thesis by simp
qed

section \<open>The read-through fill\<close>

lemma read_throughI:
  fixes X :: "'st State \<Rightarrow> ('v \<times> error option) \<times> 'st State"
  assumes hit: "\<And>s. snd (rd (store s)) = None \<Longrightarrow> X s = ((fst (rd (store s)), None), s)"
    and miss: "\<And>s. snd (rd (store s)) \<noteq> None \<Longrightarrow> fetches (snd (X s)) = fetches s @ [c]"
    and wb: "\<And>s w err st. snd (rd (store s)) \<noteq> None \<Longrightarrow> ft (calls s) = (w, None) \<Longrightarrow>
       wr (calls s) w (store s) = (err, st) \<Longrightarrow> store (snd (X s)) = st"
    and fill: "\<And>s w st. snd (rd (store s)) \<noteq> None \<Longrightarrow> ft (calls s) = (w, None) \<Longrightarrow>
       wr (calls s) w (store s) = (None, st) \<Longrightarrow> fst (X s) = res (calls s) w"
  shows "read_through X rd c ft wr res"
  unfolding read_through_def
proof (intro allI conjI impI)
  fix s :: "'st State" and w err st v
  assume m: "snd (rd (store s)) \<noteq> None"
    and f: "ft (calls s) = (w, None) \<and> wr (calls s) w (store s) = (err, st)"
    and r: "res (calls s) w = (v, None) \<and> rd st = (v, None)"
  from wb[OF m] f have "store (snd (X s)) = st" by blast
  with r have "rd (store (snd (X s))) = (v, None)" by simp
  then show "X (snd (X s)) = ((v, None), snd (X s))"
    using hit[of "snd (X s)"] by simp
qed (use hit miss wb fill in blast)+

lemma Self_read_through:
  "read_through (State_Self S A) (Store_Self S) CallMe (Session_Me A)
     (\<lambda>h v st. Store_SelfSet S st v) (\<lambda>h v. (v, None))"
  by (rule read_throughI)
     (auto simp: State_Self_def fetches_def Let_def split: prod.splits)

lemma Channel_read_through:
  "read_through (State_Channel S A c) (\<lambda>st. Store_Channel S st c) (CallChannel c)
     (\<lambda>h. Session_Channel A h c) (\<lambda>h v st. Store_ChannelSet S st v) (\<lambda>h v. (v, None))"
  by (rule read_throughI)
     (auto simp: State_Channel_def fetches_def Let_def split: prod.splits)

lemma Channels_read_through:
  "read_through (State_Channels S A g) (\<lambda>st. Store_Channels S st g) (CallChannels g)
     (\<lambda>h. Session_Channels A h g)
     (\<lambda>h. range_var_set (Store_ChannelSet_var S) (Store_Channel_assign S) (Suc (length h)))
     (\<lambda>h vs. (vs, None))"
  by (rule read_throughI)
     (auto simp: State_Channels_def loop_var_def fetches_def Let_def split: prod.splits)

lemma Emoji_read_through:
  "read_through (State_Emoji S A g e) (\<lambda>st. Store_Emoji S st g e) (CallEmojis g)
     (\<lambda>h. Session_Emojis A h g) (\<lambda>h vs st. Store_EmojiSet S st g vs) (\<lambda>h. Emoji_found e)"
  by (rule read_throughI)
     (auto simp: State_Emoji_def Emoji_found_def fetches_def Let_def
           split: prod.splits option.splits)

lemma Emojis_read_through:
  "read_through (State_Emojis S A g) (\<lambda>st. Store_Emojis S st g) (CallEmojis g)
     (\<lambda>h. Session_Emojis A h g) (\<lambda>h vs st. Store_EmojiSet S st g vs) (\<lambda>h vs. (vs, None))"
  by (rule read_throughI)
     (auto simp: State_Emojis_def fetches_def Let_def split: prod.splits)

lemma Guild_read_through:
  "read_through (State_Guild S A g) (\<lambda>st. Store_Guild S st g) (CallGuild g)
     (\<lambda>h. Session_Guild A h g) (\<lambda>h v st. Store_GuildSet S st v) (\<lambda>h v. (v, None))"
  by (rule read_throughI)
     (auto simp: State_Guild_def fetches_def Let_def split: prod.splits)

lemma Guilds_read_through:
  "read_through (State_Guilds S A) (Store_Guilds S) (CallGuilds MaxFetchGuilds)
     (\<lambda>h. Session_Guilds A h MaxFetchGuilds)
     (\<lambda>h. range_var_set (Store_GuildSet_var S) (Store_Guild_assign S) (Suc (length h)))
     (\<lambda>h vs. (vs, None))"
  by (rule read_throughI)
     (auto simp: State_Guilds_def loop_var_def fetches_def Let_def split: prod.splits)

lemma Member_read_through:
  "read_through (State_Member S A g u) (\<lambda>st. Store_Member S st g u) (CallMember g u)
     (\<lambda>h. Session_Member A h g u) (\<lambda>h v st. Store_MemberSet S st g v) (\<lambda>h v. (v, None))"
  by (rule read_throughI)
     (auto simp: State_Member_def fetches_def Let_def split: prod.splits)

lemma Members_read_through:
  "read_through (State_Members S A g) (\<lambda>st. Store_Members S st g)
     (CallMembers g MaxFetchMembers) (\<lambda>h. Session_Members A h g MaxFetchMembers)
     (\<lambda>h. range_var_set (\<lambda>st. Store_MemberSet_var S st g) (Store_Member_assign S) (Suc (length h)))
     (\<lambda>h vs. (vs, Gateway_RequestGuildMembers A (h @ [CallMembers g MaxFetchMembers]) g))"
  by (rule read_throughI)
     (auto simp: State_Members_def loop_var_def fetches_def Let_def split: prod.splits)

lemma Roles_read_through:
  "read_through (State_Roles S A g) (\<lambda>st. Store_Roles S st g) (CallRoles g)
     (\<lambda>h. Session_Roles A h g)
     (\<lambda>h. range_var_set (\<lambda>st. Store_RoleSet_var S st g) (Store_Role_assign S) (Suc (length h)))
     (\<lambda>h vs. (vs, None))"
  by (rule read_throughI)
     (auto simp: State_Roles_def loop_var_def fetches_def Let_def split: prod.splits)

lemma Role_hit:
  "snd (Store_Role S (store s) g r) = None \<longrightarrow>
     State_Role S A g r s = ((fst (Store_Role S (store s) g r), None), s)"
  by (auto simp: State_Role_def Let_def split: prod.splits)

lemma Role_fetches:
  "snd (Store_Role S (store s) g r) \<noteq> None \<longrightarrow>
     fetches (snd (State_Role S A g r s)) = fetches s @ [CallRoles g]"
  by (auto simp: State_Role_def fetches_def Let_def split: prod.splits)

lemma Role_fill:
  "snd (Store_Role S (store s) g r) \<noteq> None \<and> Session_Roles A (calls s) g = (rs, None) \<and>
   range_var_set (\<lambda>st. Store_RoleSet_var S st g) (Store_Role_assign S) (Suc (length (calls s)))
       rs (store s) = (err, st) \<longrightarrow>
     snd (fst (State_Role S A g r s)) = err
   \<and> store (snd (State_Role S A g r s)) = st
   \<and> (err = None \<longrightarrow>
        ((\<forall>x \<in> set rs. role_ID x \<noteq> r) \<longrightarrow> fst (fst (State_Role S A g r s)) = None)
      \<and> (rs \<noteq> [] \<and> role_ID (last rs) = r \<longrightarrow>
           fst (fst (State_Role S A g r s)) = Some (last rs))
      \<and> (Store_Role S st g r = (v, None) \<longrightarrow>
           State_Role S A g r (snd (State_Role S A g r s))
             = ((v, None), snd (State_Role S A g r s))))"
proof (intro impI)
  assume a: "snd (Store_Role S (store s) g r) \<noteq> None \<and> Session_Roles A (calls s) g = (rs, None) \<and>
   range_var_set (\<lambda>st. Store_RoleSet_var S st g) (Store_Role_assign S) (Suc (length (calls s)))
       rs (store s) = (err, st)"
  then have miss: "snd (Store_Role S (store s) g r) \<noteq> None"
    and fetch: "Session_Roles A (calls s) g = (rs, None)"
    and wr: "range_var_set (\<lambda>st. Store_RoleSet_var S st g) (Store_Role_assign S)
                (Suc (length (calls s))) rs (store s) = (err, st)"
    by simp_all
  have st: "store (snd (State_Role S A g r s)) = st"
    using State_Role_fetched[OF miss fetch] wr by simp
  have er: "snd (fst (State_Role S A g r s)) = err"
    using State_Role_fetched[OF miss fetch] wr by (simp add: Role_range_error)
  have res: "fst (State_Role S A g r s)
      = (if \<exists>x \<in> set rs. role_ID x = r then Some (last rs) else None, None)" if "err = None"
    by (rule State_Role_all_written[OF miss fetch]) (simp add: wr that)
  have again: "State_Role S A g r (snd (State_Role S A g r s))
          = ((v, None), snd (State_Role S A g r s))" if "Store_Role S st g r = (v, None)"
    using Role_hit[of S "snd (State_Role S A g r s)" g r A] that st by simp
  have last: "rs \<noteq> [] \<and> role_ID (last rs) = r \<longrightarrow> (\<exists>x \<in> set rs. role_ID x = r)"
    using last_in_set by blast
  show "snd (fst (State_Role S A g r s)) = err
   \<and> store (snd (State_Role S A g r s)) = st
   \<and> (err = None \<longrightarrow>
        ((\<forall>x \<in> set rs. role_ID x \<noteq> r) \<longrightarrow> fst (fst (State_Role S A g r s)) = None)
      \<and> (rs \<noteq> [] \<and> role_ID (last rs) = r \<longrightarrow>
           fst (fst (State_Role S A g r s)) = Some (last rs))
      \<and> (Store_Role S st g r = (v, None) \<longrightarrow>
           State_Role S A g r (snd (State_Role S A g r s))
             = ((v, None), snd (State_Role S A g r s))))"
    using res st er again last by auto
qed

lemma Message_hit:
  "snd (Store_Message S (store s) c i) = None \<longrightarrow>
     State_Message S A c i s = (Return (fst (Store_Message S (store s) c i), None), s)"
  by (auto simp: State_Message_def Let_def split: prod.splits)

lemma Message_fetches:
  "snd (Store_Message S (store s) c i) \<noteq> None \<longrightarrow>
     fetches (snd (State_Message S A c i s))
       = fetches s @ [CallMessage c i]
           @ (if snd (Session_Message A (calls s) c i) = None \<and>
                 snd (Store_Channel S (store s) c) \<noteq> None
              then [CallChannel c] else [])"
proof
  assume miss: "snd (Store_Message S (store s) c i) \<noteq> None"
  let ?s1 = "s\<lparr>calls := calls s @ [CallMessage c i]\<rparr>"
  have ch: "fetches (snd (State_Channel S A c ?s1))
      = fetches s @ [CallMessage c i]
          @ (if snd (Store_Channel S (store s) c) = None then [] else [CallChannel c])"
    by (simp add: State_Channel_fetches) (simp add: fetches_def)
  show "fetches (snd (State_Message S A c i s))
       = fetches s @ [CallMessage c i]
           @ (if snd (Session_Message A (calls s) c i) = None \<and>
                 snd (Store_Channel S (store s) c) \<noteq> None
              then [CallChannel c] else [])"
  proof (cases "snd (Session_Message A (calls s) c i) = None")
    case False
    then show ?thesis
      using miss by (auto simp: State_Message_def fetches_def Let_def split: prod.splits)
  next
    case True
    have "fetches (snd (State_Message S A c i s)) = fetches (snd (State_Channel S A c ?s1))"
      using miss True
      by (auto simp: State_Message_def fetches_def Let_def split: prod.splits option.splits)
    then show ?thesis using True ch by simp
  qed
qed

lemma Message_fill:
  "snd (Store_Message S (store s) c i) \<noteq> None \<and> Session_Message A (calls s) c i = (Some m, None) \<and>
   State_Channel S A c (s\<lparr>calls := calls s @ [CallMessage c i]\<rparr>) = ((cho, cerr), s2) \<and>
   (cerr = None \<longrightarrow> cho = Some ch) \<and>
   m' = (if cerr = None then stamp (channel_GuildID ch) m else m) \<and>
   Store_MessageSet S (store s2) (Some m') = (err, st) \<longrightarrow>
     State_Message S A c i s = (Return (Some m', err), s2\<lparr>store := st\<rparr>)
   \<and> (err = None \<and> Store_Message S st c i = (Some m', None) \<longrightarrow>
        State_Message S A c i (s2\<lparr>store := st\<rparr>) = (Return (Some m', None), s2\<lparr>store := st\<rparr>))"
proof (intro impI conjI)
  assume a: "snd (Store_Message S (store s) c i) \<noteq> None \<and>
   Session_Message A (calls s) c i = (Some m, None) \<and>
   State_Channel S A c (s\<lparr>calls := calls s @ [CallMessage c i]\<rparr>) = ((cho, cerr), s2) \<and>
   (cerr = None \<longrightarrow> cho = Some ch) \<and>
   m' = (if cerr = None then stamp (channel_GuildID ch) m else m) \<and>
   Store_MessageSet S (store s2) (Some m') = (err, st)"
  then show "State_Message S A c i s = (Return (Some m', err), s2\<lparr>store := st\<rparr>)"
    by (auto simp: State_Message_def stamp_def Let_def split: prod.splits)
  assume "err = None \<and> Store_Message S st c i = (Some m', None)"
  then show "State_Message S A c i (s2\<lparr>store := st\<rparr>)
      = (Return (Some m', None), s2\<lparr>store := st\<rparr>)"
    using Message_hit[of S "s2\<lparr>store := st\<rparr>" c i A] by simp
qed

lemma read_through_twice:
  assumes "read_through X rd c ft wr res"
    and "snd (rd (store s)) \<noteq> None" and "ft (calls s) = (w, None)"
    and "wr (calls s) w (store s) = (None, st)"
    and "res (calls s) w = (v, None)" and "rd st = (v, None)"
  shows "fst (X s) = (v, None) \<and> store (snd (X s)) = st
     \<and> fetches (snd (X s)) = fetches s @ [c]
     \<and> X (snd (X s)) = ((v, None), snd (X s))"
proof -
  from assms(1,2) have one: "fetches (snd (X s)) = fetches s @ [c]"
    and fill: "\<forall>w err st. ft (calls s) = (w, None) \<and> wr (calls s) w (store s) = (err, st) \<longrightarrow>
                  store (snd (X s)) = st
                \<and> (err = None \<longrightarrow>
                       fst (X s) = res (calls s) w
                     \<and> (\<forall>v. res (calls s) w = (v, None) \<and> rd st = (v, None) \<longrightarrow>
                            X (snd (X s)) = ((v, None), snd (X s))))"
    unfolding read_through_def by blast+
  from fill assms(3,4) have "fst (X s) = res (calls s) w" and "store (snd (X s)) = st"
    and "\<forall>v. res (calls s) w = (v, None) \<and> rd st = (v, None) \<longrightarrow>
                       X (snd (X s)) = ((v, None), snd (X s))"
    by blast+
  with one assms(5,6) show ?thesis by simp
qed

text \<open>
  C1, as the code has it. \<open>Self\<close>, \<open>Channel\<close>, \<open>Channels\<close>, \<open>Emoji\<close>,
  \<open>Emojis\<close>, \<open>Guild\<close>, \<open>Guilds\<close>, \<open>Member\<close>, \<open>Members\<close> and \<open>Roles\<close> keep
  the read-through contract, each with its storage read, its one fetch, its write-back
  (one write for a single entity and for the emojis of a guild; for a collection one
  write for each element, through the address of the loop variable, up to the first that
  fails) and its result: what it fetched, for \<open>Emoji\<close> the fetched emoji with the
  identifier, for \<open>Members\<close> with the error of the gateway command. So the lookup that
  follows makes no request and returns the same value whenever the storage, as the
  write-back left it, serves the key with that value.

  \<open>Role\<close> returns what the storage holds, makes one fetch after a miss, leaves the
  storage as its writes left it and returns the error of the writes. When they succeed,
  it returns nil if no fetched role has the identifier, and the last fetched role if that
  role has the identifier; what it returns when the role with the identifier is followed
  by another role is not part of this property. The lookup that follows returns what the
  storage then serves.

  \<open>Message\<close> returns what the storage holds. After a miss and a successful fetch of the
  message it runs the channel lookup, which fetches the channel when the storage does not
  hold it, so that there are two fetches then. It writes the fetched message with the
  guild identifier of the channel, or as it was fetched when the channel lookup failed,
  and returns that message with the error of the write; with the write done, the lookup
  that follows returns the same when the storage serves it.
\<close>

theorem read_through_fill:
  "read_through (State_Self S A) (Store_Self S) CallMe (Session_Me A)
     (\<lambda>h v st. Store_SelfSet S st v) (\<lambda>h v. (v, None))
   \<and> read_through (State_Channel S A c) (\<lambda>st. Store_Channel S st c) (CallChannel c)
     (\<lambda>h. Session_Channel A h c) (\<lambda>h v st. Store_ChannelSet S st v) (\<lambda>h v. (v, None))
   \<and> read_through (State_Channels S A g) (\<lambda>st. Store_Channels S st g) (CallChannels g)
     (\<lambda>h. Session_Channels A h g)
     (\<lambda>h. range_var_set (Store_ChannelSet_var S) (Store_Channel_assign S) (Suc (length h)))
     (\<lambda>h vs. (vs, None))
   \<and> read_through (State_Emoji S A g e) (\<lambda>st. Store_Emoji S st g e) (CallEmojis g)
     (\<lambda>h. Session_Emojis A h g) (\<lambda>h vs st. Store_EmojiSet S st g vs) (\<lambda>h. Emoji_found e)
   \<and> read_through (State_Emojis S A g) (\<lambda>st. Store_Emojis S st g) (CallEmojis g)
     (\<lambda>h. Session_Emojis A h g) (\<lambda>h vs st. Store_EmojiSet S st g vs) (\<lambda>h vs. (vs, None))
   \<and> read_through (State_Guild S A g) (\<lambda>st. Store_Guild S st g) (CallGuild g)
     (\<lambda>h. Session_Guild A h g) (\<lambda>h v st. Store_GuildSet S st v) (\<lambda>h v. (v, None))
   \<and> read_through (State_Guilds S A) (Store_Guilds S) (CallGuilds MaxFetchGuilds)
     (\<lambda>h. Session_Guilds A h MaxFetchGuilds)
     (\<lambda>h. range_var_set (Store_GuildSet_var S) (Store_Guild_assign S) (Suc (length h)))
     (\<lambda>h vs. (vs, None))
   \<and> read_through (State_Member S A g u) (\<lambda>st. Store_Member S st g u) (CallMember g u)
     (\<lambda>h. Session_Member A h g u) (\<lambda>h v st. Store_MemberSet S st g v) (\<lambda>h v. (v, None))
   \<and> read_through (State_Members S A g) (\<lambda>st. Store_Members S st g)
     (CallMembers g MaxFetchMembers) (\<lambda>h. Session_Members A h g MaxFetchMembers)
     (\<lambda>h. range_var_set (\<lambda>st. Store_MemberSet_var S st g) (Store_Member_assign S) (Suc (length h)))
     (\<lambda>h vs. (vs, Gateway_RequestGuildMembers A (h @ [CallMembers g MaxFetchMembers]) g))
   \<and> read_through (State_Roles S A g) (\<lambda>st. Store_Roles S st g) (CallRoles g)
     (\<lambda>h. Session_Roles A h g)
     (\<lambda>h. range_var_set (\<lambda>st. Store_RoleSet_var S st g) (Store_Role_assign S) (Suc (length h)))
     (\<lambda>h vs. (vs, None))
   \<and> (snd (Store_Role S (store s) g r) = None \<longrightarrow>
      State_Role S A g r s = ((fst (Store_Role S (store s) g r), None), s))
   \<and> (snd (Store_Role S (store s) g r) \<noteq> None \<longrightarrow>
      fetches (snd (State_Role S A g r s)) = fetches s @ [CallRoles g])
   \<and> (snd (Store_Role S (store s) g r) \<noteq> None \<and> Session_Roles A (calls s) g = (rs, None) \<and>
       range_var_set (\<lambda>st. Store_RoleSet_var S st g) (Store_Role_assign S) (Suc (length (calls s)))
           rs (store s) = (rerr, rst) \<longrightarrow>
         snd (fst (State_Role S A g r s)) = rerr
       \<and> store (snd (State_Role S A g r s)) = rst
       \<and> (rerr = None \<longrightarrow>
            ((\<forall>x \<in> set rs. role_ID x \<noteq> r) \<longrightarrow> fst (fst (State_Role S A g r s)) = None)
          \<and> (rs \<noteq> [] \<and> role_ID (last rs) = r \<longrightarrow>
               fst (fst (State_Role S A g r s)) = Some (last rs))
          \<and> (Store_Role S rst g r = (rv, None) \<longrightarrow>
               State_Role S A g r (snd (State_Role S A g r s))
                 = ((rv, None), snd (State_Role S A g r s)))))
   \<and> (snd (Store_Message S (store s) c i) = None \<longrightarrow>
      State_Message S A c i s = (Return (fst (Store_Message S (store s) c i), None), s))
   \<and> (snd (Store_Message S (store s) c i) \<noteq> None \<longrightarrow>
      fetches (snd (State_Message S A c i s))
        = fetches s @ [CallMessage c i]
            @ (if snd (Session_Message A (calls s) c i) = None \<and>
                  snd (Store_Channel S (store s) c) \<noteq> None
               then [CallChannel c] else []))
   \<and> (snd (Store_Message S (store s) c i) \<noteq> None \<and>
       Session_Message A (calls s) c i = (Some m, None) \<and>
       State_Channel S A c (s\<lparr>calls := calls s @ [CallMessage c i]\<rparr>) = ((cho, cerr), s2) \<and>
       (cerr = None \<longrightarrow> cho = Some ch) \<and>
       m' = (if cerr = None then stamp (channel_GuildID ch) m else m) \<and>
       Store_MessageSet S (store s2) (Some m') = (err, st) \<longrightarrow>
         State_Message S A c i s = (Return (Some m', err), s2\<lparr>store := st\<rparr>)
       \<and> (err = None \<and> Store_Message S st c i = (Some m', None) \<longrightarrow>
            State_Message S A c i (s2\<lparr>store := st\<rparr>)
              = (Return (Some m', None), s2\<lparr>store := st\<rparr>)))"
  by (intro conjI Self_read_through Channel_read_through Channels_read_through Emoji_read_through Emojis_read_through Guild_read_through Guilds_read_through Member_read_through Members_read_through Roles_read_through
      Role_hit Role_fetches Role_fill Message_hit Message_fetches Message_fill)

text \<open>
  The specification has one fetch after a storage miss, and a following lookup that
  returns the first result. At \<open>Message\<close> on the empty store the storage read fails and
  the lookup makes two fetches, one for the message and one for its channel. At \<open>Role\<close>
  on the empty store, with the roles 11 and 12 fetched, the lookup of role 11 returns
  role 12 and the lookup that follows returns role 11. At \<open>Channels\<close> on the empty store
  that keeps the pointers it is handed, with the channels 7 and 8 fetched, the lookup
  returns the channels 7 and 8 and the lookup that follows, without a request, returns
  channel 8 twice: the store was handed the address of the loop variable each time.
\<close>

theorem read_through_fill_counterexample:
  "Store_Message mem_Store (store (state0 mem_empty)) 7 70 = (None, Some ErrStoreNotFound)
   \<and> fetches (snd (State_Message mem_Store api 7 70 (state0 mem_empty)))
       = [CallMessage 7 70, CallChannel 7]
   \<and> fst (State_Role mem_Store api 1 11 (state0 mem_empty)) = (Some role12, None)
   \<and> fst (State_Role mem_Store api 1 11 (snd (State_Role mem_Store api 1 11 (state0 mem_empty))))
       = (Some role11, None)
   \<and> fst (State_Channels kept_Store api_two 1 (state0 kept_empty))
       = ([channel7, channel8], None)
   \<and> State_Channels kept_Store api_two 1
         (snd (State_Channels kept_Store api_two 1 (state0 kept_empty)))
       = (([channel8, channel8], None),
          snd (State_Channels kept_Store api_two 1 (state0 kept_empty)))"
  by (simp add: State_Message_def State_Channel_def State_Role_def State_Channels_def
      loop_var_def fetches_def List.map_filter_def fixture_defs)

text \<open>
  The property on the empty store, at each accessor: the first lookup with the value it
  returns and the state it leaves, and the second lookup in that state, which returns the
  same value and leaves the state as it is. The role looked up is the last one fetched.
\<close>

theorem read_through_fill_witness:
  "State_Self mem_Store api (state0 mem_empty)
       = ((Some alice, None),
          \<lparr>store = mem_empty\<lparr>m_self := Some alice\<rparr>,
           fewMessages = [], calls = [CallMe]\<rparr>)
   \<and> State_Self mem_Store api
          \<lparr>store = mem_empty\<lparr>m_self := Some alice\<rparr>,
           fewMessages = [], calls = [CallMe]\<rparr>
       = ((Some alice, None),
          \<lparr>store = mem_empty\<lparr>m_self := Some alice\<rparr>,
           fewMessages = [], calls = [CallMe]\<rparr>)
   \<and> State_Channel mem_Store api 7 (state0 mem_empty)
       = ((Some channel7, None),
          \<lparr>store = mem_empty\<lparr>m_channels := [channel7]\<rparr>,
           fewMessages = [], calls = [CallChannel 7]\<rparr>)
   \<and> State_Channel mem_Store api 7
          \<lparr>store = mem_empty\<lparr>m_channels := [channel7]\<rparr>,
           fewMessages = [], calls = [CallChannel 7]\<rparr>
       = ((Some channel7, None),
          \<lparr>store = mem_empty\<lparr>m_channels := [channel7]\<rparr>,
           fewMessages = [], calls = [CallChannel 7]\<rparr>)
   \<and> State_Channels mem_Store api 1 (state0 mem_empty)
       = (([channel7], None),
          \<lparr>store = mem_empty\<lparr>m_channels := [channel7]\<rparr>,
           fewMessages = [], calls = [CallChannels 1]\<rparr>)
   \<and> State_Channels mem_Store api 1
          \<lparr>store = mem_empty\<lparr>m_channels := [channel7]\<rparr>,
           fewMessages = [], calls = [CallChannels 1]\<rparr>
       = (([channel7], None),
          \<lparr>store = mem_empty\<lparr>m_channels := [channel7]\<rparr>,
           fewMessages = [], calls = [CallChannels 1]\<rparr>)
   \<and> State_Emoji mem_Store api 1 21 (state0 mem_empty)
       = ((Some emoji21, None),
          \<lparr>store = mem_empty\<lparr>m_emojis := [(1, [emoji21])]\<rparr>,
           fewMessages = [], calls = [CallEmojis 1]\<rparr>)
   \<and> State_Emoji mem_Store api 1 21
          \<lparr>store = mem_empty\<lparr>m_emojis := [(1, [emoji21])]\<rparr>,
           fewMessages = [], calls = [CallEmojis 1]\<rparr>
       = ((Some emoji21, None),
          \<lparr>store = mem_empty\<lparr>m_emojis := [(1, [emoji21])]\<rparr>,
           fewMessages = [], calls = [CallEmojis 1]\<rparr>)
   \<and> State_Emojis mem_Store api 1 (state0 mem_empty)
       = (([emoji21], None),
          \<lparr>store = mem_empty\<lparr>m_emojis := [(1, [emoji21])]\<rparr>,
           fewMessages = [], calls = [CallEmojis 1]\<rparr>)
   \<and> State_Emojis mem_Store api 1
          \<lparr>store = mem_empty\<lparr>m_emojis := [(1, [emoji21])]\<rparr>,
           fewMessages = [], calls = [CallEmojis 1]\<rparr>
       = (([emoji21], None),
          \<lparr>store = mem_empty\<lparr>m_emojis := [(1, [emoji21])]\<rparr>,
           fewMessages = [], calls = [CallEmojis 1]\<rparr>)
   \<and> State_Guild mem_Store api 1 (state0 mem_empty)
       = ((Some guild1, None),
          \<lparr>store = mem_empty\<lparr>m_guilds := [guild1]\<rparr>,
           fewMessages = [], calls = [CallGuild 1]\<rparr>)
   \<and> State_Guild mem_Store api 1
          \<lparr>store = mem_empty\<lparr>m_guilds := [guild1]\<rparr>,
           fewMessages = [], calls = [CallGuild 1]\<rparr>
       = ((Some guild1, None),
          \<lparr>store = mem_empty\<lparr>m_guilds := [guild1]\<rparr>,
           fewMessages = [], calls = [CallGuild 1]\<rparr>)
   \<and> State_Guilds mem_Store api (state0 mem_empty)
       = (([guild1], None),
          \<lparr>store = mem_empty\<lparr>m_guilds := [guild1]\<rparr>,
           fewMessages = [], calls = [CallGuilds 100]\<rparr>)
   \<and> State_Guilds mem_Store api
          \<lparr>store = mem_empty\<lparr>m_guilds := [guild1]\<rparr>,
           fewMessages = [], calls = [CallGuilds 100]\<rparr>
       = (([guild1], None),
          \<lparr>store = mem_empty\<lparr>m_guilds := [guild1]\<rparr>,
           fewMessages = [], calls = [CallGuilds 100]\<rparr>)
   \<and> State_Member mem_Store api 1 5 (state0 mem_empty)
       = ((Some member5, None),
          \<lparr>store = mem_empty\<lparr>m_members := [(1, member5)]\<rparr>,
           fewMessages = [], calls = [CallMember 1 5]\<rparr>)
   \<and> State_Member mem_Store api 1 5
          \<lparr>store = mem_empty\<lparr>m_members := [(1, member5)]\<rparr>,
           fewMessages = [], calls = [CallMember 1 5]\<rparr>
       = ((Some member5, None),
          \<lparr>store = mem_empty\<lparr>m_members := [(1, member5)]\<rparr>,
           fewMessages = [], calls = [CallMember 1 5]\<rparr>)
   \<and> State_Members mem_Store api 1 (state0 mem_empty)
       = (([member5], None),
          \<lparr>store = mem_empty\<lparr>m_members := [(1, member5)]\<rparr>,
           fewMessages = [], calls = [CallMembers 1 1000, CallRequestGuildMembers 1]\<rparr>)
   \<and> State_Members mem_Store api 1
          \<lparr>store = mem_empty\<lparr>m_members := [(1, member5)]\<rparr>,
           fewMessages = [], calls = [CallMembers 1 1000, CallRequestGuildMembers 1]\<rparr>
       = (([member5], None),
          \<lparr>store = mem_empty\<lparr>m_members := [(1, member5)]\<rparr>,
           fewMessages = [], calls = [CallMembers 1 1000, CallRequestGuildMembers 1]\<rparr>)
   \<and> State_Roles mem_Store api 1 (state0 mem_empty)
       = (([role11, role12], None),
          \<lparr>store = mem_empty\<lparr>m_roles := [(1, role11), (1, role12)]\<rparr>,
           fewMessages = [], calls = [CallRoles 1]\<rparr>)
   \<and> State_Roles mem_Store api 1
          \<lparr>store = mem_empty\<lparr>m_roles := [(1, role11), (1, role12)]\<rparr>,
           fewMessages = [], calls = [CallRoles 1]\<rparr>
       = (([role11, role12], None),
          \<lparr>store = mem_empty\<lparr>m_roles := [(1, role11), (1, role12)]\<rparr>,
           fewMessages = [], calls = [CallRoles 1]\<rparr>)
   \<and> State_Role mem_Store api 1 12 (state0 mem_empty)
       = ((Some role12, None),
          \<lparr>store = mem_empty\<lparr>m_roles := [(1, role11), (1, role12)]\<rparr>,
           fewMessages = [], calls = [CallRoles 1]\<rparr>)
   \<and> State_Role mem_Store api 1 12
          \<lparr>store = mem_empty\<lparr>m_roles := [(1, role11), (1, role12)]\<rparr>,
           fewMessages = [], calls = [CallRoles 1]\<rparr>
       = ((Some role12, None),
          \<lparr>store = mem_empty\<lparr>m_roles := [(1, role11), (1, role12)]\<rparr>,
           fewMessages = [], calls = [CallRoles 1]\<rparr>)
   \<and> State_Message mem_Store api 7 70 (state0 mem_empty)
       = (Return (Some (stamp 1 (msg 70)), None),
          \<lparr>store = mem_empty\<lparr>m_channels := [channel7],
                     m_messages := [stamp 1 (msg 70)]\<rparr>,
           fewMessages = [], calls = [CallMessage 7 70, CallChannel 7]\<rparr>)
   \<and> State_Message mem_Store api 7 70
          \<lparr>store = mem_empty\<lparr>m_channels := [channel7],
                     m_messages := [stamp 1 (msg 70)]\<rparr>,
           fewMessages = [], calls = [CallMessage 7 70, CallChannel 7]\<rparr>
       = (Return (Some (stamp 1 (msg 70)), None),
          \<lparr>store = mem_empty\<lparr>m_channels := [channel7],
                     m_messages := [stamp 1 (msg 70)]\<rparr>,
           fewMessages = [], calls = [CallMessage 7 70, CallChannel 7]\<rparr>)
   \<and> fetches (snd (State_Message mem_Store api 7 70 (state0 mem_empty)))
       = [CallMessage 7 70, CallChannel 7]"
proof -
  note rt = read_through_fill[where S = mem_Store and A = api and c = 7 and g = 1 and u = 5
      and e = 21 and r = 12 and i = 70 and s = "state0 mem_empty"
      and rs = "[role11, role12]"
      and rerr = None
      and rst = "mem_empty\<lparr>m_roles := [(1, role11), (1, role12)]\<rparr>" and rv = "Some role12"
      and m = "msg 70" and cho = "Some channel7" and cerr = None and ch = channel7
      and m' = "stamp 1 (msg 70)" and err = None
      and ?s2.0 = "\<lparr>store = mem_empty\<lparr>m_channels := [channel7]\<rparr>, fewMessages = [],
                  calls = [CallMessage 7 70, CallChannel 7]\<rparr>"
      and st = "mem_empty\<lparr>m_channels := [channel7], m_messages := [stamp 1 (msg 70)]\<rparr>"]
  note r0 = rt[THEN conjunct1]
  note c1 = rt[THEN conjunct2]
  note r1 = c1[THEN conjunct1]
  note c2 = c1[THEN conjunct2]
  note r2 = c2[THEN conjunct1]
  note c3 = c2[THEN conjunct2]
  note r3 = c3[THEN conjunct1]
  note c4 = c3[THEN conjunct2]
  note r4 = c4[THEN conjunct1]
  note c5 = c4[THEN conjunct2]
  note r5 = c5[THEN conjunct1]
  note c6 = c5[THEN conjunct2]
  note r6 = c6[THEN conjunct1]
  note c7 = c6[THEN conjunct2]
  note r7 = c7[THEN conjunct1]
  note c8 = c7[THEN conjunct2]
  note r8 = c8[THEN conjunct1]
  note c9 = c8[THEN conjunct2]
  note r9 = c9[THEN conjunct1]
  note c10 = c9[THEN conjunct2]
  note r10 = c10[THEN conjunct1]
  note c11 = c10[THEN conjunct2]
  note r11 = c11[THEN conjunct1]
  note c12 = c11[THEN conjunct2]
  note r12 = c12[THEN conjunct1]
  note c13 = c12[THEN conjunct2]
  note r13 = c13[THEN conjunct1]
  note c14 = c13[THEN conjunct2]
  note r14 = c14[THEN conjunct1]
  note c15 = c14[THEN conjunct2]
  note r15 = c15
  have f0: "State_Self mem_Store api (state0 mem_empty)
       = ((Some alice, None),
          \<lparr>store = mem_empty\<lparr>m_self := Some alice\<rparr>,
           fewMessages = [], calls = [CallMe]\<rparr>)"
    by (simp add: State_Self_def fixture_defs)
  have "fst (State_Self mem_Store api (state0 mem_empty)) = (Some alice, None)
      \<and> store (snd (State_Self mem_Store api (state0 mem_empty))) = mem_empty\<lparr>m_self := Some alice\<rparr>
      \<and> fetches (snd (State_Self mem_Store api (state0 mem_empty))) = fetches (state0 mem_empty) @ [CallMe]
      \<and> State_Self mem_Store api (snd (State_Self mem_Store api (state0 mem_empty)))
          = ((Some alice, None), snd (State_Self mem_Store api (state0 mem_empty)))"
    by (rule read_through_twice[OF r0, where w = "Some alice"];
        simp add: fixture_defs)
  then have t0: "State_Self mem_Store api
          \<lparr>store = mem_empty\<lparr>m_self := Some alice\<rparr>,
           fewMessages = [], calls = [CallMe]\<rparr>
       = ((Some alice, None),
          \<lparr>store = mem_empty\<lparr>m_self := Some alice\<rparr>,
           fewMessages = [], calls = [CallMe]\<rparr>)"
    by (simp add: f0)
  have f1: "State_Channel mem_Store api 7 (state0 mem_empty)
       = ((Some channel7, None),
          \<lparr>store = mem_empty\<lparr>m_channels := [channel7]\<rparr>,
           fewMessages = [], calls = [CallChannel 7]\<rparr>)"
    by (simp add: State_Channel_def fixture_defs)
  have "fst (State_Channel mem_Store api 7 (state0 mem_empty)) = (Some channel7, None)
      \<and> store (snd (State_Channel mem_Store api 7 (state0 mem_empty))) = mem_empty\<lparr>m_channels := [channel7]\<rparr>
      \<and> fetches (snd (State_Channel mem_Store api 7 (state0 mem_empty))) = fetches (state0 mem_empty) @ [CallChannel 7]
      \<and> State_Channel mem_Store api 7 (snd (State_Channel mem_Store api 7 (state0 mem_empty)))
          = ((Some channel7, None), snd (State_Channel mem_Store api 7 (state0 mem_empty)))"
    by (rule read_through_twice[OF r1, where w = "Some channel7"];
        simp add: fixture_defs)
  then have t1: "State_Channel mem_Store api 7
          \<lparr>store = mem_empty\<lparr>m_channels := [channel7]\<rparr>,
           fewMessages = [], calls = [CallChannel 7]\<rparr>
       = ((Some channel7, None),
          \<lparr>store = mem_empty\<lparr>m_channels := [channel7]\<rparr>,
           fewMessages = [], calls = [CallChannel 7]\<rparr>)"
    by (simp add: f1)
  have f2: "State_Channels mem_Store api 1 (state0 mem_empty)
       = (([channel7], None),
          \<lparr>store = mem_empty\<lparr>m_channels := [channel7]\<rparr>,
           fewMessages = [], calls = [CallChannels 1]\<rparr>)"
    by (simp add: State_Channels_def loop_var_def fixture_defs)
  have "fst (State_Channels mem_Store api 1 (state0 mem_empty)) = ([channel7], None)
      \<and> store (snd (State_Channels mem_Store api 1 (state0 mem_empty))) = mem_empty\<lparr>m_channels := [channel7]\<rparr>
      \<and> fetches (snd (State_Channels mem_Store api 1 (state0 mem_empty))) = fetches (state0 mem_empty) @ [CallChannels 1]
      \<and> State_Channels mem_Store api 1 (snd (State_Channels mem_Store api 1 (state0 mem_empty)))
          = (([channel7], None), snd (State_Channels mem_Store api 1 (state0 mem_empty)))"
    by (rule read_through_twice[OF r2, where w = "[channel7]"];
        simp add: loop_var_def fixture_defs)
  then have t2: "State_Channels mem_Store api 1
          \<lparr>store = mem_empty\<lparr>m_channels := [channel7]\<rparr>,
           fewMessages = [], calls = [CallChannels 1]\<rparr>
       = (([channel7], None),
          \<lparr>store = mem_empty\<lparr>m_channels := [channel7]\<rparr>,
           fewMessages = [], calls = [CallChannels 1]\<rparr>)"
    by (simp add: f2)
  have f3: "State_Emoji mem_Store api 1 21 (state0 mem_empty)
       = ((Some emoji21, None),
          \<lparr>store = mem_empty\<lparr>m_emojis := [(1, [emoji21])]\<rparr>,
           fewMessages = [], calls = [CallEmojis 1]\<rparr>)"
    by (simp add: State_Emoji_def Emoji_found_def fixture_defs)
  have "fst (State_Emoji mem_Store api 1 21 (state0 mem_empty)) = (Some emoji21, None)
      \<and> store (snd (State_Emoji mem_Store api 1 21 (state0 mem_empty))) = mem_empty\<lparr>m_emojis := [(1, [emoji21])]\<rparr>
      \<and> fetches (snd (State_Emoji mem_Store api 1 21 (state0 mem_empty))) = fetches (state0 mem_empty) @ [CallEmojis 1]
      \<and> State_Emoji mem_Store api 1 21 (snd (State_Emoji mem_Store api 1 21 (state0 mem_empty)))
          = ((Some emoji21, None), snd (State_Emoji mem_Store api 1 21 (state0 mem_empty)))"
    by (rule read_through_twice[OF r3, where w = "[emoji21]"];
        simp add: Emoji_found_def fixture_defs)
  then have t3: "State_Emoji mem_Store api 1 21
          \<lparr>store = mem_empty\<lparr>m_emojis := [(1, [emoji21])]\<rparr>,
           fewMessages = [], calls = [CallEmojis 1]\<rparr>
       = ((Some emoji21, None),
          \<lparr>store = mem_empty\<lparr>m_emojis := [(1, [emoji21])]\<rparr>,
           fewMessages = [], calls = [CallEmojis 1]\<rparr>)"
    by (simp add: f3)
  have f4: "State_Emojis mem_Store api 1 (state0 mem_empty)
       = (([emoji21], None),
          \<lparr>store = mem_empty\<lparr>m_emojis := [(1, [emoji21])]\<rparr>,
           fewMessages = [], calls = [CallEmojis 1]\<rparr>)"
    by (simp add: State_Emojis_def fixture_defs)
  have "fst (State_Emojis mem_Store api 1 (state0 mem_empty)) = ([emoji21], None)
      \<and> store (snd (State_Emojis mem_Store api 1 (state0 mem_empty))) = mem_empty\<lparr>m_emojis := [(1, [emoji21])]\<rparr>
      \<and> fetches (snd (State_Emojis mem_Store api 1 (state0 mem_empty))) = fetches (state0 mem_empty) @ [CallEmojis 1]
      \<and> State_Emojis mem_Store api 1 (snd (State_Emojis mem_Store api 1 (state0 mem_empty)))
          = (([emoji21], None), snd (State_Emojis mem_Store api 1 (state0 mem_empty)))"
    by (rule read_through_twice[OF r4, where w = "[emoji21]"];
        simp add: fixture_defs)
  then have t4: "State_Emojis mem_Store api 1
          \<lparr>store = mem_empty\<lparr>m_emojis := [(1, [emoji21])]\<rparr>,
           fewMessages = [], calls = [CallEmojis 1]\<rparr>
       = (([emoji21], None),
          \<lparr>store = mem_empty\<lparr>m_emojis := [(1, [emoji21])]\<rparr>,
           fewMessages = [], calls = [CallEmojis 1]\<rparr>)"
    by (simp add: f4)
  have f5: "State_Guild mem_Store api 1 (state0 mem_empty)
       = ((Some guild1, None),
          \<lparr>store = mem_empty\<lparr>m_guilds := [guild1]\<rparr>,
           fewMessages = [], calls = [CallGuild 1]\<rparr>)"
    by (simp add: State_Guild_def fixture_defs)
  have "fst (State_Guild mem_Store api 1 (state0 mem_empty)) = (Some guild1, None)
      \<and> store (snd (State_Guild mem_Store api 1 (state0 mem_empty))) = mem_empty\<lparr>m_guilds := [guild1]\<rparr>
      \<and> fetches (snd (State_Guild mem_Store api 1 (state0 mem_empty))) = fetches (state0 mem_empty) @ [CallGuild 1]
      \<and> State_Guild mem_Store api 1 (snd (State_Guild mem_Store api 1 (state0 mem_empty)))
          = ((Some guild1, None), snd (State_Guild mem_Store api 1 (state0 mem_empty)))"
    by (rule read_through_twice[OF r5, where w = "Some guild1"];
        simp add: fixture_defs)
  then have t5: "State_Guild mem_Store api 1
          \<lparr>store = mem_empty\<lparr>m_guilds := [guild1]\<rparr>,
           fewMessages = [], calls = [CallGuild 1]\<rparr>
       = ((Some guild1, None),
          \<lparr>store = mem_empty\<lparr>m_guilds := [guild1]\<rparr>,
           fewMessages = [], calls = [CallGuild 1]\<rparr>)"
    by (simp add: f5)
  have f6: "State_Guilds mem_Store api (state0 mem_empty)
       = (([guild1], None),
          \<lparr>store = mem_empty\<lparr>m_guilds := [guild1]\<rparr>,
           fewMessages = [], calls = [CallGuilds 100]\<rparr>)"
    by (simp add: State_Guilds_def loop_var_def MaxFetchGuilds_def fixture_defs)
  have "fst (State_Guilds mem_Store api (state0 mem_empty)) = ([guild1], None)
      \<and> store (snd (State_Guilds mem_Store api (state0 mem_empty))) = mem_empty\<lparr>m_guilds := [guild1]\<rparr>
      \<and> fetches (snd (State_Guilds mem_Store api (state0 mem_empty))) = fetches (state0 mem_empty) @ [CallGuilds MaxFetchGuilds]
      \<and> State_Guilds mem_Store api (snd (State_Guilds mem_Store api (state0 mem_empty)))
          = (([guild1], None), snd (State_Guilds mem_Store api (state0 mem_empty)))"
    by (rule read_through_twice[OF r6, where w = "[guild1]"];
        simp add: loop_var_def MaxFetchGuilds_def fixture_defs)
  then have t6: "State_Guilds mem_Store api
          \<lparr>store = mem_empty\<lparr>m_guilds := [guild1]\<rparr>,
           fewMessages = [], calls = [CallGuilds 100]\<rparr>
       = (([guild1], None),
          \<lparr>store = mem_empty\<lparr>m_guilds := [guild1]\<rparr>,
           fewMessages = [], calls = [CallGuilds 100]\<rparr>)"
    by (simp add: f6)
  have f7: "State_Member mem_Store api 1 5 (state0 mem_empty)
       = ((Some member5, None),
          \<lparr>store = mem_empty\<lparr>m_members := [(1, member5)]\<rparr>,
           fewMessages = [], calls = [CallMember 1 5]\<rparr>)"
    by (simp add: State_Member_def fixture_defs)
  have "fst (State_Member mem_Store api 1 5 (state0 mem_empty)) = (Some member5, None)
      \<and> store (snd (State_Member mem_Store api 1 5 (state0 mem_empty))) = mem_empty\<lparr>m_members := [(1, member5)]\<rparr>
      \<and> fetches (snd (State_Member mem_Store api 1 5 (state0 mem_empty))) = fetches (state0 mem_empty) @ [CallMember 1 5]
      \<and> State_Member mem_Store api 1 5 (snd (State_Member mem_Store api 1 5 (state0 mem_empty)))
          = ((Some member5, None), snd (State_Member mem_Store api 1 5 (state0 mem_empty)))"
    by (rule read_through_twice[OF r7, where w = "Some member5"];
        simp add: fixture_defs)
  then have t7: "State_Member mem_Store api 1 5
          \<lparr>store = mem_empty\<lparr>m_members := [(1, member5)]\<rparr>,
           fewMessages = [], calls = [CallMember 1 5]\<rparr>
       = ((Some member5, None),
          \<lparr>store = mem_empty\<lparr>m_members := [(1, member5)]\<rparr>,
           fewMessages = [], calls = [CallMember 1 5]\<rparr>)"
    by (simp add: f7)
  have f8: "State_Members mem_Store api 1 (state0 mem_empty)
       = (([member5], None),
          \<lparr>store = mem_empty\<lparr>m_members := [(1, member5)]\<rparr>,
           fewMessages = [], calls = [CallMembers 1 1000, CallRequestGuildMembers 1]\<rparr>)"
    by (simp add: State_Members_def loop_var_def MaxFetchMembers_def fixture_defs)
  have "fst (State_Members mem_Store api 1 (state0 mem_empty)) = ([member5], None)
      \<and> store (snd (State_Members mem_Store api 1 (state0 mem_empty))) = mem_empty\<lparr>m_members := [(1, member5)]\<rparr>
      \<and> fetches (snd (State_Members mem_Store api 1 (state0 mem_empty))) = fetches (state0 mem_empty) @ [CallMembers 1 MaxFetchMembers]
      \<and> State_Members mem_Store api 1 (snd (State_Members mem_Store api 1 (state0 mem_empty)))
          = (([member5], None), snd (State_Members mem_Store api 1 (state0 mem_empty)))"
    by (rule read_through_twice[OF r8, where w = "[member5]"];
        simp add: loop_var_def MaxFetchMembers_def fixture_defs)
  then have t8: "State_Members mem_Store api 1
          \<lparr>store = mem_empty\<lparr>m_members := [(1, member5)]\<rparr>,
           fewMessages = [], calls = [CallMembers 1 1000, CallRequestGuildMembers 1]\<rparr>
       = (([member5], None),
          \<lparr>store = mem_empty\<lparr>m_members := [(1, member5)]\<rparr>,
           fewMessages = [], calls = [CallMembers 1 1000, CallRequestGuildMembers 1]\<rparr>)"
    by (simp add: f8)
  have f9: "State_Roles mem_Store api 1 (state0 mem_empty)
       = (([role11, role12], None),
          \<lparr>store = mem_empty\<lparr>m_roles := [(1, role11), (1, role12)]\<rparr>,
           fewMessages = [], calls = [CallRoles 1]\<rparr>)"
    by (simp add: State_Roles_def loop_var_def fixture_defs)
  have "fst (State_Roles mem_Store api 1 (state0 mem_empty)) = ([role11, role12], None)
      \<and> store (snd (State_Roles mem_Store api 1 (state0 mem_empty))) = mem_empty\<lparr>m_roles := [(1, role11), (1, role12)]\<rparr>
      \<and> fetches (snd (State_Roles mem_Store api 1 (state0 mem_empty))) = fetches (state0 mem_empty) @ [CallRoles 1]
      \<and> State_Roles mem_Store api 1 (snd (State_Roles mem_Store api 1 (state0 mem_empty)))
          = (([role11, role12], None), snd (State_Roles mem_Store api 1 (state0 mem_empty)))"
    by (rule read_through_twice[OF r9, where w = "[role11, role12]"];
        simp add: loop_var_def fixture_defs)
  then have t9: "State_Roles mem_Store api 1
          \<lparr>store = mem_empty\<lparr>m_roles := [(1, role11), (1, role12)]\<rparr>,
           fewMessages = [], calls = [CallRoles 1]\<rparr>
       = (([role11, role12], None),
          \<lparr>store = mem_empty\<lparr>m_roles := [(1, role11), (1, role12)]\<rparr>,
           fewMessages = [], calls = [CallRoles 1]\<rparr>)"
    by (simp add: f9)
  have f10: "State_Role mem_Store api 1 12 (state0 mem_empty)
       = ((Some role12, None),
          \<lparr>store = mem_empty\<lparr>m_roles := [(1, role11), (1, role12)]\<rparr>,
           fewMessages = [], calls = [CallRoles 1]\<rparr>)"
    by (simp add: State_Role_def loop_var_def fixture_defs)
  have role_hyp: "snd (Store_Role mem_Store (store (state0 mem_empty)) 1 12) \<noteq> None \<and>
      Session_Roles api (calls (state0 mem_empty)) 1 = ([role11, role12], None) \<and>
      range_var_set (\<lambda>st. Store_RoleSet_var mem_Store st 1) (Store_Role_assign mem_Store)
          (Suc (length (calls (state0 mem_empty)))) [role11, role12] (store (state0 mem_empty))
        = (None, mem_empty\<lparr>m_roles := [(1, role11), (1, role12)]\<rparr>)"
    by (simp add: fixture_defs)
  have role_rd: "Store_Role mem_Store (mem_empty\<lparr>m_roles := [(1, role11), (1, role12)]\<rparr>) 1 12
      = (Some role12, None)"
    by (simp add: fixture_defs)
  have "State_Role mem_Store api 1 12 (snd (State_Role mem_Store api 1 12 (state0 mem_empty)))
       = ((Some role12, None), snd (State_Role mem_Store api 1 12 (state0 mem_empty)))"
    using r12[THEN mp, OF role_hyp] role_rd by blast
  then have t10: "State_Role mem_Store api 1 12
          \<lparr>store = mem_empty\<lparr>m_roles := [(1, role11), (1, role12)]\<rparr>,
           fewMessages = [], calls = [CallRoles 1]\<rparr>
       = ((Some role12, None),
          \<lparr>store = mem_empty\<lparr>m_roles := [(1, role11), (1, role12)]\<rparr>,
           fewMessages = [], calls = [CallRoles 1]\<rparr>)"
    by (simp add: f10)
  have msg_hyp: "snd (Store_Message mem_Store (store (state0 mem_empty)) 7 70) \<noteq> None \<and>
      Session_Message api (calls (state0 mem_empty)) 7 70 = (Some (msg 70), None) \<and>
      State_Channel mem_Store api 7 ((state0 mem_empty)\<lparr>calls := calls (state0 mem_empty) @ [CallMessage 7 70]\<rparr>)
        = ((Some channel7, None),
           \<lparr>store = mem_empty\<lparr>m_channels := [channel7]\<rparr>, fewMessages = [],
              calls = [CallMessage 7 70, CallChannel 7]\<rparr>) \<and>
      (None = None \<longrightarrow> Some channel7 = Some channel7) \<and>
      stamp 1 (msg 70) = (if None = None then stamp (channel_GuildID channel7) (msg 70) else msg 70) \<and>
      Store_MessageSet mem_Store
          (store \<lparr>store = mem_empty\<lparr>m_channels := [channel7]\<rparr>, fewMessages = [],
              calls = [CallMessage 7 70, CallChannel 7]\<rparr>)
          (Some (stamp 1 (msg 70)))
        = (None, mem_empty\<lparr>m_channels := [channel7], m_messages := [stamp 1 (msg 70)]\<rparr>)"
    by (simp add: State_Channel_def stamp_def fixture_defs)
  have msg_rd: "Store_Message mem_Store
        (mem_empty\<lparr>m_channels := [channel7], m_messages := [stamp 1 (msg 70)]\<rparr>) 7 70
      = (Some (stamp 1 (msg 70)), None)"
    by (simp add: stamp_def fixture_defs)
  note mf = r15[THEN mp, OF msg_hyp]
  have f11: "State_Message mem_Store api 7 70 (state0 mem_empty)
       = (Return (Some (stamp 1 (msg 70)), None),
          \<lparr>store = mem_empty\<lparr>m_channels := [channel7],
                     m_messages := [stamp 1 (msg 70)]\<rparr>,
           fewMessages = [], calls = [CallMessage 7 70, CallChannel 7]\<rparr>)"
    using mf[THEN conjunct1] by simp
  have t11: "State_Message mem_Store api 7 70
          \<lparr>store = mem_empty\<lparr>m_channels := [channel7],
                     m_messages := [stamp 1 (msg 70)]\<rparr>,
           fewMessages = [], calls = [CallMessage 7 70, CallChannel 7]\<rparr>
       = (Return (Some (stamp 1 (msg 70)), None),
          \<lparr>store = mem_empty\<lparr>m_channels := [channel7],
                     m_messages := [stamp 1 (msg 70)]\<rparr>,
           fewMessages = [], calls = [CallMessage 7 70, CallChannel 7]\<rparr>)"
    using mf[THEN conjunct2] msg_rd by simp
  have msg_miss: "snd (Store_Message mem_Store (store (state0 mem_empty)) 7 70) \<noteq> None"
    by (simp add: fixture_defs)
  have m11: "fetches (snd (State_Message mem_Store api 7 70 (state0 mem_empty)))
       = [CallMessage 7 70, CallChannel 7]"
    using r14[THEN mp, OF msg_miss] by (simp add: fetches_def fixture_defs)
  from f0 t0 f1 t1 f2 t2 f3 t3 f4 t4 f5 t5 f6 t6 f7 t7 f8 t8 f9 t9 f10 t10 f11 t11 m11 show ?thesis by simp
qed


end
